theory Spec2Isabelle
  imports Main
begin

section \<open>Book Summary Generator: the actions of \<open>src/actions/index.ts\<close>\<close>

text \<open>
  The repository is one Astro actions module (nine actions over three tables) and the
  table declarations of \<open>db/config.ts\<close>. The model below follows the module
  function by function. What the module takes from its surroundings is made explicit:
  \<^item> the database is a record of three row lists, read and written through the
    query primitives \<open>select\<close>, \<open>insert\<close>, \<open>update\<close> and \<open>delete\<close>;
    every primitive appends one entry to a \<open>trace\<close>, so that "no statement reached
    the store" is a statement about the trace;
  \<^item> \<open>crypto.randomUUID()\<close> and \<open>new Date()\<close> are read from an environment
    record passed to the handler (each handler reads each of them at most once);
  \<^item> a thrown \<open>ActionError\<close>, a rejected input and a failed statement are values
    of the type \<open>failure\<close>; an \<open>async\<close> function is a function from the database
    to an outcome and the database it leaves behind.
\<close>

subsection \<open>Rows (db/config.ts)\<close>

text \<open>A \<open>Date\<close> is its number of milliseconds since the epoch.\<close>

type_synonym date = int

text \<open>Optional columns hold \<open>None\<close> for SQL NULL.\<close>

record book =
  book_id :: string
  book_userId :: string
  book_title :: string
  book_author :: "string option"
  book_sourceType :: "string option"
  book_sourceUrl :: "string option"
  book_language :: "string option"
  book_notes :: "string option"
  book_createdAt :: date
  book_updatedAt :: date

record bookSection =
  section_id :: string
  section_bookId :: string
  section_sectionType :: "string option"
  section_orderIndex :: "int option"
  section_title :: "string option"
  section_rawText :: string
  section_createdAt :: date

record sectionSummary =
  summary_id :: string
  summary_sectionId :: string
  summary_variant :: "string option"
  summary_language :: "string option"
  summary_summaryText :: string
  summary_createdAt :: date

subsection \<open>The database and its statements\<close>

datatype table = TBooks | TBookSections | TSectionSummaries

datatype access = SELECT table | INSERT table | UPDATE table | DELETE table

text \<open>
  \<open>foreign_keys\<close> says whether the engine enforces the \<open>references\<close> declared in
  \<open>db/config.ts\<close> (for SQLite a setting of the connection); the module does not
  fix it, so it is a field of the database that no statement changes.
\<close>

record database =
  Books :: "book list"
  BookSections :: "bookSection list"
  SectionSummaries :: "sectionSummary list"
  foreign_keys :: bool
  trace :: "access list"

datatype code = UNAUTHORIZED | NOT_FOUND

text \<open>
  \<open>ActionError c m\<close> is \<open>new ActionError({code: c, message: m})\<close>;
  \<open>VALIDATION\<close> is the rejection of an input by the action's \<open>input\<close> schema;
  \<open>DB_FAILURE\<close> is a statement refused by the engine (a primary key or a foreign
  key violated).
\<close>

datatype failure = ActionError code string | VALIDATION | DB_FAILURE

type_synonym 'a io = "database \<Rightarrow> (failure + 'a) \<times> database"

definition resolve :: "'a \<Rightarrow> 'a io" where
  "resolve x d = (Inr x, d)"

definition throw :: "failure \<Rightarrow> 'a io" where
  "throw e d = (Inl e, d)"

text \<open>\<open>await m k\<close> is \<open>const x = await m; k x\<close>: a failure of \<open>m\<close> ends the function.\<close>

definition await :: "'a io \<Rightarrow> ('a \<Rightarrow> 'b io) \<Rightarrow> 'b io" where
  "await m k d = (case m d of (Inl e, d') \<Rightarrow> (Inl e, d') | (Inr x, d') \<Rightarrow> k x d')"

definition touch :: "access \<Rightarrow> database \<Rightarrow> database" where
  "touch a d = d\<lparr>trace := trace d @ [a]\<rparr>"

text \<open>\<open>const [x] = rows\<close>: the first row, \<open>undefined\<close> (here \<open>None\<close>) when there is none.\<close>

fun first :: "'a list \<Rightarrow> 'a option" where
  "first [] = None"
| "first (x # _) = Some x"

definition select_Books :: "(book \<Rightarrow> bool) \<Rightarrow> book list io" where
  "select_Books p d = (Inr (filter p (Books d)), touch (SELECT TBooks) d)"

definition select_BookSections :: "(bookSection \<Rightarrow> bool) \<Rightarrow> bookSection list io" where
  "select_BookSections p d = (Inr (filter p (BookSections d)), touch (SELECT TBookSections) d)"

definition select_SectionSummaries :: "(sectionSummary \<Rightarrow> bool) \<Rightarrow> sectionSummary list io" where
  "select_SectionSummaries p d =
     (Inr (filter p (SectionSummaries d)), touch (SELECT TSectionSummaries) d)"

text \<open>\<open>insert(..).values(row).returning()\<close>: \<open>id\<close> is the primary key of each table.\<close>

definition insert_Books :: "book \<Rightarrow> book list io" where
  "insert_Books row d =
     (if book_id row \<in> set (map book_id (Books d))
      then (Inl DB_FAILURE, touch (INSERT TBooks) d)
      else (Inr [row], touch (INSERT TBooks) (d\<lparr>Books := Books d @ [row]\<rparr>)))"

definition insert_BookSections :: "bookSection \<Rightarrow> bookSection list io" where
  "insert_BookSections row d =
     (if section_id row \<in> set (map section_id (BookSections d))
         \<or> (foreign_keys d \<and> section_bookId row \<notin> set (map book_id (Books d)))
      then (Inl DB_FAILURE, touch (INSERT TBookSections) d)
      else (Inr [row],
            touch (INSERT TBookSections) (d\<lparr>BookSections := BookSections d @ [row]\<rparr>)))"

definition insert_SectionSummaries :: "sectionSummary \<Rightarrow> sectionSummary list io" where
  "insert_SectionSummaries row d =
     (if summary_id row \<in> set (map summary_id (SectionSummaries d))
         \<or> (foreign_keys d \<and> summary_sectionId row \<notin> set (map section_id (BookSections d)))
      then (Inl DB_FAILURE, touch (INSERT TSectionSummaries) d)
      else (Inr [row],
            touch (INSERT TSectionSummaries)
              (d\<lparr>SectionSummaries := SectionSummaries d @ [row]\<rparr>)))"

text \<open>
  \<open>update(..).set(f).where(p).returning()\<close>: every row that satisfies \<open>p\<close> is replaced
  by \<open>f\<close> of it, and the replaced rows are returned. The module's \<open>set\<close> never
  touches a key column, so no constraint can fail.
\<close>

definition update_Books :: "(book \<Rightarrow> book) \<Rightarrow> (book \<Rightarrow> bool) \<Rightarrow> book list io" where
  "update_Books f p d =
     (Inr (map f (filter p (Books d))),
      touch (UPDATE TBooks) (d\<lparr>Books := map (\<lambda>r. if p r then f r else r) (Books d)\<rparr>))"

definition update_BookSections ::
  "(bookSection \<Rightarrow> bookSection) \<Rightarrow> (bookSection \<Rightarrow> bool) \<Rightarrow> bookSection list io" where
  "update_BookSections f p d =
     (Inr (map f (filter p (BookSections d))),
      touch (UPDATE TBookSections)
        (d\<lparr>BookSections := map (\<lambda>r. if p r then f r else r) (BookSections d)\<rparr>))"

text \<open>
  \<open>delete(..).where(p)\<close>. With foreign keys enforced, a section that a summary still
  references cannot be deleted, and the statement fails as a whole.
\<close>

definition delete_BookSections :: "(bookSection \<Rightarrow> bool) \<Rightarrow> unit io" where
  "delete_BookSections p d =
     (if foreign_keys d
         \<and> list_ex (\<lambda>r. p r \<and> section_id r \<in> set (map summary_sectionId (SectionSummaries d)))
              (BookSections d)
      then (Inl DB_FAILURE, touch (DELETE TBookSections) d)
      else (Inr (),
            touch (DELETE TBookSections)
              (d\<lparr>BookSections := filter (\<lambda>r. \<not> p r) (BookSections d)\<rparr>)))"

definition delete_SectionSummaries :: "(sectionSummary \<Rightarrow> bool) \<Rightarrow> unit io" where
  "delete_SectionSummaries p d =
     (Inr (),
      touch (DELETE TSectionSummaries)
        (d\<lparr>SectionSummaries := filter (\<lambda>r. \<not> p r) (SectionSummaries d)\<rparr>))"

subsection \<open>The request context and \<open>requireUser\<close>\<close>

record user =
  user_id :: string

record locals =
  locals_user :: "user option"

record ActionAPIContext =
  context_locals :: "locals option"

definition requireUser :: "ActionAPIContext \<Rightarrow> failure + user" where
  "requireUser context =
     (case context_locals context of
        None \<Rightarrow> Inl (ActionError UNAUTHORIZED ''You must be signed in to perform this action.'')
      | Some locals \<Rightarrow>
          (case locals_user locals of
             None \<Rightarrow>
               Inl (ActionError UNAUTHORIZED ''You must be signed in to perform this action.'')
           | Some user \<Rightarrow> Inr user))"

text \<open>A synchronous call inside an \<open>async\<close> handler: it does not see the database.\<close>

definition sync :: "failure + 'a \<Rightarrow> 'a io" where
  "sync r d = (r, d)"

subsection \<open>\<open>getOwnedBook\<close> and \<open>getOwnedSection\<close>\<close>

definition getOwnedBook :: "string \<Rightarrow> string \<Rightarrow> book io" where
  "getOwnedBook bookId userId =
     await (select_Books (\<lambda>r. book_id r = bookId \<and> book_userId r = userId))
       (\<lambda>rows. case first rows of
                  None \<Rightarrow> throw (ActionError NOT_FOUND ''Book not found.'')
                | Some book \<Rightarrow> resolve book)"

definition getOwnedSection :: "string \<Rightarrow> string \<Rightarrow> string \<Rightarrow> bookSection io" where
  "getOwnedSection sectionId bookId userId =
     await (getOwnedBook bookId userId)
       (\<lambda>_. await (select_BookSections
                     (\<lambda>r. section_id r = sectionId \<and> section_bookId r = bookId))
               (\<lambda>rows. case first rows of
                          None \<Rightarrow> throw (ActionError NOT_FOUND ''Section not found.'')
                        | Some section \<Rightarrow> resolve section))"

subsection \<open>Inputs, results and the environment\<close>

text \<open>
  The inputs as the schemas type them: a required key is a value, an optional key is an
  \<open>option\<close> (\<open>None\<close> is \<open>undefined\<close>), \<open>z.number().int()\<close> is an \<open>int\<close>.
\<close>

record createBook_input =
  cb_title :: string
  cb_author :: "string option"
  cb_sourceType :: "string option"
  cb_sourceUrl :: "string option"
  cb_language :: "string option"
  cb_notes :: "string option"

record updateBook_input =
  ub_id :: string
  ub_title :: "string option"
  ub_author :: "string option"
  ub_sourceType :: "string option"
  ub_sourceUrl :: "string option"
  ub_language :: "string option"
  ub_notes :: "string option"

record createBookSection_input =
  cs_bookId :: string
  cs_sectionType :: "string option"
  cs_orderIndex :: "int option"
  cs_title :: "string option"
  cs_rawText :: string

record updateBookSection_input =
  us_id :: string
  us_bookId :: string
  us_sectionType :: "string option"
  us_orderIndex :: "int option"
  us_title :: "string option"
  us_rawText :: "string option"

record deleteBookSection_input =
  ds_id :: string
  ds_bookId :: string

record listBookSections_input =
  ls_bookId :: string

record createSectionSummary_input =
  cm_sectionId :: string
  cm_bookId :: string
  cm_variant :: "string option"
  cm_language :: "string option"
  cm_summaryText :: string

record listSectionSummaries_input =
  lm_sectionId :: string
  lm_bookId :: string

text \<open>What a handler returns: \<open>{success: true, data: ...}\<close>, or \<open>{success: true}\<close>.\<close>

datatype response =
    BookData "book option"
  | BookItems "book list" nat
  | SectionData "bookSection option"
  | SectionItems "bookSection list" nat
  | SummaryData "sectionSummary option"
  | SummaryItems "sectionSummary list" nat
  | Success

record env =
  randomUUID :: string
  newDate :: date

text \<open>\<open>z.string().min(1)\<close>\<close>

definition min1 :: "string \<Rightarrow> bool" where
  "min1 s = (1 \<le> length s)"

text \<open>\<open>z.string().min(1).optional()\<close>\<close>

definition min1_optional :: "string option \<Rightarrow> bool" where
  "min1_optional s = (case s of None \<Rightarrow> True | Some t \<Rightarrow> min1 t)"

text \<open>
  \<open>defineAction({input, handler})\<close>: the handler is called with the parsed input, so only
  after the schema has accepted it.
\<close>

definition defineAction ::
  "('i \<Rightarrow> bool) \<Rightarrow> ('i \<Rightarrow> ActionAPIContext \<Rightarrow> response io) \<Rightarrow> 'i \<Rightarrow> ActionAPIContext \<Rightarrow> response io" where
  "defineAction input handler raw context =
     (if input raw then handler raw context else throw VALIDATION)"

subsection \<open>Book actions\<close>

definition createBook_schema :: "createBook_input \<Rightarrow> bool" where
  "createBook_schema input = min1 (cb_title input)"

definition createBook_handler :: "env \<Rightarrow> createBook_input \<Rightarrow> ActionAPIContext \<Rightarrow> response io" where
  "createBook_handler env input context =
     await (sync (requireUser context))
       (\<lambda>user. let now = newDate env in
          await (insert_Books
                   \<lparr>book_id = randomUUID env,
                    book_userId = user_id user,
                    book_title = cb_title input,
                    book_author = cb_author input,
                    book_sourceType = cb_sourceType input,
                    book_sourceUrl = cb_sourceUrl input,
                    book_language = cb_language input,
                    book_notes = cb_notes input,
                    book_createdAt = now,
                    book_updatedAt = now\<rparr>)
            (\<lambda>rows. resolve (BookData (first rows))))"

definition createBook :: "env \<Rightarrow> createBook_input \<Rightarrow> ActionAPIContext \<Rightarrow> response io" where
  "createBook env = defineAction createBook_schema (createBook_handler env)"

definition updateBook_schema :: "updateBook_input \<Rightarrow> bool" where
  "updateBook_schema input =
     ((min1 (ub_id input) \<and> min1_optional (ub_title input))
      \<and> (ub_title input \<noteq> None
         \<or> ub_author input \<noteq> None
         \<or> ub_sourceType input \<noteq> None
         \<or> ub_sourceUrl input \<noteq> None
         \<or> ub_language input \<noteq> None
         \<or> ub_notes input \<noteq> None))"

text \<open>The object given to \<open>set\<close>: a spread per supplied key, and \<open>updatedAt\<close>.\<close>

definition updateBook_set :: "updateBook_input \<Rightarrow> date \<Rightarrow> book \<Rightarrow> book" where
  "updateBook_set input now r =
     r\<lparr>book_title := (case ub_title input of None \<Rightarrow> book_title r | Some v \<Rightarrow> v),
       book_author := (case ub_author input of None \<Rightarrow> book_author r | Some v \<Rightarrow> Some v),
       book_sourceType :=
         (case ub_sourceType input of None \<Rightarrow> book_sourceType r | Some v \<Rightarrow> Some v),
       book_sourceUrl :=
         (case ub_sourceUrl input of None \<Rightarrow> book_sourceUrl r | Some v \<Rightarrow> Some v),
       book_language := (case ub_language input of None \<Rightarrow> book_language r | Some v \<Rightarrow> Some v),
       book_notes := (case ub_notes input of None \<Rightarrow> book_notes r | Some v \<Rightarrow> Some v),
       book_updatedAt := now\<rparr>"

definition updateBook_handler :: "env \<Rightarrow> updateBook_input \<Rightarrow> ActionAPIContext \<Rightarrow> response io" where
  "updateBook_handler env input context =
     await (sync (requireUser context))
       (\<lambda>user. await (getOwnedBook (ub_id input) (user_id user))
          (\<lambda>_. await (update_Books (updateBook_set input (newDate env))
                        (\<lambda>r. book_id r = ub_id input))
                  (\<lambda>rows. resolve (BookData (first rows)))))"

definition updateBook :: "env \<Rightarrow> updateBook_input \<Rightarrow> ActionAPIContext \<Rightarrow> response io" where
  "updateBook env = defineAction updateBook_schema (updateBook_handler env)"

text \<open>\<open>z.object({}).optional()\<close> accepts the input; the handler ignores it.\<close>

definition listBooks_handler :: "unit \<Rightarrow> ActionAPIContext \<Rightarrow> response io" where
  "listBooks_handler _ context =
     await (sync (requireUser context))
       (\<lambda>user. await (select_Books (\<lambda>r. book_userId r = user_id user))
          (\<lambda>books. resolve (BookItems books (length books))))"

definition listBooks :: "unit \<Rightarrow> ActionAPIContext \<Rightarrow> response io" where
  "listBooks = defineAction (\<lambda>_. True) listBooks_handler"

subsection \<open>Section actions\<close>

definition createBookSection_schema :: "createBookSection_input \<Rightarrow> bool" where
  "createBookSection_schema input = (min1 (cs_bookId input) \<and> min1 (cs_rawText input))"

definition createBookSection_handler ::
  "env \<Rightarrow> createBookSection_input \<Rightarrow> ActionAPIContext \<Rightarrow> response io" where
  "createBookSection_handler env input context =
     await (sync (requireUser context))
       (\<lambda>user. await (getOwnedBook (cs_bookId input) (user_id user))
          (\<lambda>_. await (insert_BookSections
                        \<lparr>section_id = randomUUID env,
                         section_bookId = cs_bookId input,
                         section_sectionType = cs_sectionType input,
                         section_orderIndex =
                           Some (case cs_orderIndex input of None \<Rightarrow> 1 | Some n \<Rightarrow> n),
                         section_title = cs_title input,
                         section_rawText = cs_rawText input,
                         section_createdAt = newDate env\<rparr>)
                  (\<lambda>rows. resolve (SectionData (first rows)))))"

definition createBookSection ::
  "env \<Rightarrow> createBookSection_input \<Rightarrow> ActionAPIContext \<Rightarrow> response io" where
  "createBookSection env = defineAction createBookSection_schema (createBookSection_handler env)"

definition updateBookSection_schema :: "updateBookSection_input \<Rightarrow> bool" where
  "updateBookSection_schema input =
     ((min1 (us_id input) \<and> min1 (us_bookId input))
      \<and> (us_sectionType input \<noteq> None
         \<or> us_orderIndex input \<noteq> None
         \<or> us_title input \<noteq> None
         \<or> us_rawText input \<noteq> None))"

definition updateBookSection_set :: "updateBookSection_input \<Rightarrow> bookSection \<Rightarrow> bookSection" where
  "updateBookSection_set input r =
     r\<lparr>section_sectionType :=
         (case us_sectionType input of None \<Rightarrow> section_sectionType r | Some v \<Rightarrow> Some v),
       section_orderIndex :=
         (case us_orderIndex input of None \<Rightarrow> section_orderIndex r | Some v \<Rightarrow> Some v),
       section_title := (case us_title input of None \<Rightarrow> section_title r | Some v \<Rightarrow> Some v),
       section_rawText := (case us_rawText input of None \<Rightarrow> section_rawText r | Some v \<Rightarrow> v)\<rparr>"

definition updateBookSection_handler ::
  "updateBookSection_input \<Rightarrow> ActionAPIContext \<Rightarrow> response io" where
  "updateBookSection_handler input context =
     await (sync (requireUser context))
       (\<lambda>user. await (getOwnedSection (us_id input) (us_bookId input) (user_id user))
          (\<lambda>_. await (update_BookSections (updateBookSection_set input)
                        (\<lambda>r. section_id r = us_id input))
                  (\<lambda>rows. resolve (SectionData (first rows)))))"

definition updateBookSection :: "updateBookSection_input \<Rightarrow> ActionAPIContext \<Rightarrow> response io" where
  "updateBookSection = defineAction updateBookSection_schema updateBookSection_handler"

definition deleteBookSection_schema :: "deleteBookSection_input \<Rightarrow> bool" where
  "deleteBookSection_schema input = (min1 (ds_id input) \<and> min1 (ds_bookId input))"

definition deleteBookSection_handler ::
  "deleteBookSection_input \<Rightarrow> ActionAPIContext \<Rightarrow> response io" where
  "deleteBookSection_handler input context =
     await (sync (requireUser context))
       (\<lambda>user. await (getOwnedSection (ds_id input) (ds_bookId input) (user_id user))
          (\<lambda>_. await (delete_BookSections (\<lambda>r. section_id r = ds_id input))
                  (\<lambda>_. await (delete_SectionSummaries
                                (\<lambda>r. summary_sectionId r = ds_id input))
                          (\<lambda>_. resolve Success))))"

definition deleteBookSection :: "deleteBookSection_input \<Rightarrow> ActionAPIContext \<Rightarrow> response io" where
  "deleteBookSection = defineAction deleteBookSection_schema deleteBookSection_handler"

definition listBookSections_schema :: "listBookSections_input \<Rightarrow> bool" where
  "listBookSections_schema input = min1 (ls_bookId input)"

definition listBookSections_handler ::
  "listBookSections_input \<Rightarrow> ActionAPIContext \<Rightarrow> response io" where
  "listBookSections_handler input context =
     await (sync (requireUser context))
       (\<lambda>user. await (getOwnedBook (ls_bookId input) (user_id user))
          (\<lambda>_. await (select_BookSections (\<lambda>r. section_bookId r = ls_bookId input))
                  (\<lambda>sections. resolve (SectionItems sections (length sections)))))"

definition listBookSections :: "listBookSections_input \<Rightarrow> ActionAPIContext \<Rightarrow> response io" where
  "listBookSections = defineAction listBookSections_schema listBookSections_handler"

subsection \<open>Summary actions\<close>

definition createSectionSummary_schema :: "createSectionSummary_input \<Rightarrow> bool" where
  "createSectionSummary_schema input =
     (min1 (cm_sectionId input) \<and> min1 (cm_bookId input) \<and> min1 (cm_summaryText input))"

definition createSectionSummary_handler ::
  "env \<Rightarrow> createSectionSummary_input \<Rightarrow> ActionAPIContext \<Rightarrow> response io" where
  "createSectionSummary_handler env input context =
     await (sync (requireUser context))
       (\<lambda>user. await (getOwnedSection (cm_sectionId input) (cm_bookId input) (user_id user))
          (\<lambda>_. await (insert_SectionSummaries
                        \<lparr>summary_id = randomUUID env,
                         summary_sectionId = cm_sectionId input,
                         summary_variant = cm_variant input,
                         summary_language = cm_language input,
                         summary_summaryText = cm_summaryText input,
                         summary_createdAt = newDate env\<rparr>)
                  (\<lambda>rows. resolve (SummaryData (first rows)))))"

definition createSectionSummary ::
  "env \<Rightarrow> createSectionSummary_input \<Rightarrow> ActionAPIContext \<Rightarrow> response io" where
  "createSectionSummary env =
     defineAction createSectionSummary_schema (createSectionSummary_handler env)"

definition listSectionSummaries_schema :: "listSectionSummaries_input \<Rightarrow> bool" where
  "listSectionSummaries_schema input = (min1 (lm_sectionId input) \<and> min1 (lm_bookId input))"

definition listSectionSummaries_handler ::
  "listSectionSummaries_input \<Rightarrow> ActionAPIContext \<Rightarrow> response io" where
  "listSectionSummaries_handler input context =
     await (sync (requireUser context))
       (\<lambda>user. await (getOwnedSection (lm_sectionId input) (lm_bookId input) (user_id user))
          (\<lambda>_. await (select_SectionSummaries (\<lambda>r. summary_sectionId r = lm_sectionId input))
                  (\<lambda>summaries. resolve (SummaryItems summaries (length summaries)))))"

definition listSectionSummaries ::
  "listSectionSummaries_input \<Rightarrow> ActionAPIContext \<Rightarrow> response io" where
  "listSectionSummaries = defineAction listSectionSummaries_schema listSectionSummaries_handler"

subsection \<open>The exported \<open>server\<close> object\<close>

text \<open>A request names one of the ten actions of \<open>server\<close> and carries its input.\<close>

datatype request =
    CreateBook createBook_input
  | UpdateBook updateBook_input
  | ListBooks
  | CreateBookSection createBookSection_input
  | UpdateBookSection updateBookSection_input
  | DeleteBookSection deleteBookSection_input
  | ListBookSections listBookSections_input
  | CreateSectionSummary createSectionSummary_input
  | ListSectionSummaries listSectionSummaries_input

fun server :: "env \<Rightarrow> request \<Rightarrow> ActionAPIContext \<Rightarrow> response io" where
  "server env (CreateBook input) = createBook env input"
| "server env (UpdateBook input) = updateBook env input"
| "server env ListBooks = listBooks ()"
| "server env (CreateBookSection input) = createBookSection env input"
| "server env (UpdateBookSection input) = updateBookSection input"
| "server env (DeleteBookSection input) = deleteBookSection input"
| "server env (ListBookSections input) = listBookSections input"
| "server env (CreateSectionSummary input) = createSectionSummary env input"
| "server env (ListSectionSummaries input) = listSectionSummaries input"


text \<open>The \<open>input\<close> schema of the action a request names.\<close>

definition accepted :: "request \<Rightarrow> bool" where
  "accepted req =
     (case req of
        CreateBook input \<Rightarrow> createBook_schema input
      | UpdateBook input \<Rightarrow> updateBook_schema input
      | ListBooks \<Rightarrow> True
      | CreateBookSection input \<Rightarrow> createBookSection_schema input
      | UpdateBookSection input \<Rightarrow> updateBookSection_schema input
      | DeleteBookSection input \<Rightarrow> deleteBookSection_schema input
      | ListBookSections input \<Rightarrow> listBookSections_schema input
      | CreateSectionSummary input \<Rightarrow> createSectionSummary_schema input
      | ListSectionSummaries input \<Rightarrow> listSectionSummaries_schema input)"

text \<open>\<open>locals?.user\<close>: the authenticated identity of a request, if it has one.\<close>

definition identity :: "ActionAPIContext \<Rightarrow> user option" where
  "identity context =
     (case context_locals context of None \<Rightarrow> None | Some locals \<Rightarrow> locals_user locals)"

text \<open>The rows of the three tables: what a statement can change and a query can see.\<close>

definition rows :: "database \<Rightarrow> book list \<times> bookSection list \<times> sectionSummary list" where
  "rows d = (Books d, BookSections d, SectionSummaries d)"

text \<open>
  The user ids of the books with a given id, and of the books that own the sections with
  a given id (one owner each when the ids are unique, none when the row does not exist).
\<close>

definition book_owners :: "database \<Rightarrow> string \<Rightarrow> string list" where
  "book_owners d bookId = map book_userId (filter (\<lambda>r. book_id r = bookId) (Books d))"

definition section_owners :: "database \<Rightarrow> string \<Rightarrow> string list" where
  "section_owners d sectionId =
     concat (map (\<lambda>r. book_owners d (section_bookId r))
               (filter (\<lambda>r. section_id r = sectionId) (BookSections d)))"

text \<open>\<open>id\<close> is declared the primary key of each table: no two rows share one.\<close>

definition unique_ids :: "database \<Rightarrow> bool" where
  "unique_ids d =
     (distinct (map book_id (Books d)) \<and> distinct (map section_id (BookSections d))
      \<and> distinct (map summary_id (SectionSummaries d)))"

text \<open>A section with the given id is stored under the given book id.\<close>

definition has_section :: "database \<Rightarrow> string \<Rightarrow> string \<Rightarrow> bool" where
  "has_section d bookId sectionId =
     list_ex (\<lambda>r. section_id r = sectionId \<and> section_bookId r = bookId) (BookSections d)"

text \<open>
  The owners of the book that owns the target of a Section or Summary action: the book
  named by \<open>bookId\<close> for \<open>createBookSection\<close> and \<open>listBookSections\<close>, the book of
  the section named by the section id for the other four.
\<close>

fun target_owners :: "database \<Rightarrow> request \<Rightarrow> string list option" where
  "target_owners d (CreateBookSection input) = Some (book_owners d (cs_bookId input))"
| "target_owners d (ListBookSections input) = Some (book_owners d (ls_bookId input))"
| "target_owners d (UpdateBookSection input) = Some (section_owners d (us_id input))"
| "target_owners d (DeleteBookSection input) = Some (section_owners d (ds_id input))"
| "target_owners d (CreateSectionSummary input) = Some (section_owners d (cm_sectionId input))"
| "target_owners d (ListSectionSummaries input) = Some (section_owners d (lm_sectionId input))"
| "target_owners d _ = None"

text \<open>The book id an action is called on (\<open>createBook\<close> and \<open>listBooks\<close> have none).\<close>

fun target_book :: "request \<Rightarrow> string option" where
  "target_book (UpdateBook input) = Some (ub_id input)"
| "target_book (CreateBookSection input) = Some (cs_bookId input)"
| "target_book (UpdateBookSection input) = Some (us_bookId input)"
| "target_book (DeleteBookSection input) = Some (ds_bookId input)"
| "target_book (ListBookSections input) = Some (ls_bookId input)"
| "target_book (CreateSectionSummary input) = Some (cm_bookId input)"
| "target_book (ListSectionSummaries input) = Some (lm_bookId input)"
| "target_book _ = None"

subsection \<open>Example data\<close>

definition signedIn :: "string \<Rightarrow> ActionAPIContext" where
  "signedIn userId =
     \<lparr>context_locals = Some \<lparr>locals_user = Some \<lparr>user_id = userId\<rparr>\<rparr>\<rparr>"

definition signedOut :: ActionAPIContext where
  "signedOut = \<lparr>context_locals = Some \<lparr>locals_user = None\<rparr>\<rparr>"

definition mobyDick :: book where
  "mobyDick =
     \<lparr>book_id = ''B1'', book_userId = ''U1'', book_title = ''Moby Dick'',
      book_author = Some ''Herman Melville'', book_sourceType = None, book_sourceUrl = None,
      book_language = Some ''en'', book_notes = None,
      book_createdAt = 1000, book_updatedAt = 1000\<rparr>"

definition emma :: book where
  "emma =
     \<lparr>book_id = ''B2'', book_userId = ''U2'', book_title = ''Emma'',
      book_author = None, book_sourceType = Some ''manual'', book_sourceUrl = None,
      book_language = None, book_notes = Some ''draft'',
      book_createdAt = 2000, book_updatedAt = 2500\<rparr>"

definition loomings :: bookSection where
  "loomings =
     \<lparr>section_id = ''S1'', section_bookId = ''B1'', section_sectionType = Some ''chapter'',
      section_orderIndex = Some 1, section_title = Some ''Loomings'',
      section_rawText = ''Call me Ishmael'', section_createdAt = 1100\<rparr>"

definition carpetBag :: bookSection where
  "carpetBag =
     \<lparr>section_id = ''S2'', section_bookId = ''B1'', section_sectionType = Some ''chapter'',
      section_orderIndex = Some 1, section_title = None,
      section_rawText = ''I stuffed a shirt or two'', section_createdAt = 1200\<rparr>"

definition hartfield :: bookSection where
  "hartfield =
     \<lparr>section_id = ''S3'', section_bookId = ''B2'', section_sectionType = None,
      section_orderIndex = Some 7, section_title = None,
      section_rawText = ''Emma Woodhouse'', section_createdAt = 2100\<rparr>"

definition spouter :: bookSection where
  "spouter =
     \<lparr>section_id = ''S4'', section_bookId = ''B1'', section_sectionType = None,
      section_orderIndex = Some 3, section_title = None,
      section_rawText = ''Entering that gable-ended inn'', section_createdAt = 1300\<rparr>"

definition summaryOf :: "string \<Rightarrow> string \<Rightarrow> string \<Rightarrow> sectionSummary" where
  "summaryOf summaryId sectionId variant =
     \<lparr>summary_id = summaryId, summary_sectionId = sectionId, summary_variant = Some variant,
      summary_language = None, summary_summaryText = ''A sailor's tale'',
      summary_createdAt = 3000\<rparr>"

text \<open>
  A database of two users: U1 owns B1 with the sections S1 (two summaries), S2 (one) and
  S4 (none); U2 owns B2 with the section S3 (one summary).
\<close>

definition library :: "bool \<Rightarrow> database" where
  "library fk =
     \<lparr>Books = [mobyDick, emma],
      BookSections = [loomings, carpetBag, hartfield, spouter],
      SectionSummaries =
        [summaryOf ''M1'' ''S1'' ''short'', summaryOf ''M2'' ''S3'' ''short'',
         summaryOf ''M3'' ''S1'' ''detailed'', summaryOf ''M4'' ''S2'' ''bullets''],
      foreign_keys = fk,
      trace = []\<rparr>"

definition emptyLibrary :: database where
  "emptyLibrary =
     \<lparr>Books = [], BookSections = [], SectionSummaries = [], foreign_keys = True, trace = []\<rparr>"

definition newChapter :: "int option \<Rightarrow> createBookSection_input" where
  "newChapter orderIndex =
     \<lparr>cs_bookId = ''B1'', cs_sectionType = None, cs_orderIndex = orderIndex,
      cs_title = None, cs_rawText = ''Call me Ishmael''\<rparr>"

definition storedChapter :: "int \<Rightarrow> bookSection" where
  "storedChapter orderIndex =
     \<lparr>section_id = ''S9'', section_bookId = ''B1'', section_sectionType = None,
      section_orderIndex = Some orderIndex, section_title = None,
      section_rawText = ''Call me Ishmael'', section_createdAt = 5000\<rparr>"

definition blankOut :: updateBookSection_input where
  "blankOut =
     \<lparr>us_id = ''S1'', us_bookId = ''B1'', us_sectionType = None, us_orderIndex = None,
      us_title = None, us_rawText = Some ''''\<rparr>"

definition retitle :: updateBookSection_input where
  "retitle =
     \<lparr>us_id = ''S2'', us_bookId = ''B1'', us_sectionType = None, us_orderIndex = Some 2,
      us_title = Some ''The Carpet-Bag'', us_rawText = None\<rparr>"

definition annotate :: updateBook_input where
  "annotate =
     \<lparr>ub_id = ''B1'', ub_title = None, ub_author = None, ub_sourceType = None,
      ub_sourceUrl = None, ub_language = None, ub_notes = Some ''whales''\<rparr>"

definition remove :: "string \<Rightarrow> deleteBookSection_input" where
  "remove sectionId = \<lparr>ds_id = sectionId, ds_bookId = ''B1''\<rparr>"

subsection \<open>Sequences of calls\<close>

text \<open>
  A call is an action of \<open>server\<close> with its input, the request context it is called in
  and the environment it reads. \<open>run\<close> makes the calls one after another;
  \<open>succeeded_updates\<close> lists the book ids of the \<open>updateBook\<close> calls of the run that
  returned a result.
\<close>

type_synonym call = "env \<times> request \<times> ActionAPIContext"

fun invoke :: "call \<Rightarrow> response io" where
  "invoke (env, req, context) = server env req context"

fun run :: "call list \<Rightarrow> database \<Rightarrow> database" where
  "run [] d = d"
| "run (c # cs) d = run cs (snd (invoke c d))"

fun updated_id :: "request \<Rightarrow> failure + response \<Rightarrow> string list" where
  "updated_id (UpdateBook input) (Inr _) = [ub_id input]"
| "updated_id _ _ = []"

fun succeeded_updates :: "call list \<Rightarrow> database \<Rightarrow> string list" where
  "succeeded_updates [] d = []"
| "succeeded_updates (c # cs) d =
     updated_id (fst (snd c)) (fst (invoke c d)) @ succeeded_updates cs (snd (invoke c d))"

definition persuasion :: createBook_input where
  "persuasion =
     \<lparr>cb_title = ''Persuasion'', cb_author = Some ''Jane Austen'', cb_sourceType = None,
      cb_sourceUrl = None, cb_language = None, cb_notes = None\<rparr>"

definition translate :: updateBook_input where
  "translate =
     \<lparr>ub_id = ''B9'', ub_title = None, ub_author = None, ub_sourceType = None,
      ub_sourceUrl = None, ub_language = Some ''ta'', ub_notes = None\<rparr>"

definition novel :: "string option \<Rightarrow> date \<Rightarrow> book" where
  "novel language updatedAt =
     \<lparr>book_id = ''B9'', book_userId = ''U1'', book_title = ''Persuasion'',
      book_author = Some ''Jane Austen'', book_sourceType = None, book_sourceUrl = None,
      book_language = language, book_notes = None,
      book_createdAt = 5000, book_updatedAt = updatedAt\<rparr>"

definition createThenUpdate :: "call list" where
  "createThenUpdate =
     [(\<lparr>randomUUID = ''B9'', newDate = 5000\<rparr>, CreateBook persuasion, signedIn ''U1''),
      (\<lparr>randomUUID = ''X1'', newDate = 6000\<rparr>, UpdateBook translate, signedIn ''U1'')]"

lemmas action_defs =
  createBook_def updateBook_def listBooks_def createBookSection_def updateBookSection_def
  deleteBookSection_def listBookSections_def createSectionSummary_def listSectionSummaries_def

lemmas handler_defs =
  createBook_handler_def updateBook_handler_def listBooks_handler_def
  createBookSection_handler_def updateBookSection_handler_def deleteBookSection_handler_def
  listBookSections_handler_def createSectionSummary_handler_def
  listSectionSummaries_handler_def

lemma rejected: "\<not> input raw \<Longrightarrow> defineAction input handler raw context d = (Inl VALIDATION, d)"
  by (simp add: defineAction_def throw_def)

lemma not_accepted: "\<not> accepted req \<Longrightarrow> server env req context d = (Inl VALIDATION, d)"
  by (cases req) (simp_all add: accepted_def action_defs rejected)

lemma requireUser_cases:
  "requireUser context = Inl (ActionError UNAUTHORIZED ''You must be signed in to perform this action.'')
   \<or> (\<exists>user. requireUser context = Inr user)"
  by (simp add: requireUser_def split: option.splits)

lemma await_sync_Inl: "await (sync (Inl e)) k d = (Inl e, d)"
  by (simp add: await_def sync_def)

lemma await_sync_Inr: "await (sync (Inr x)) k d = k x d"
  by (simp add: await_def sync_def)

lemma server_signed_out:
  "requireUser context = Inl e \<Longrightarrow> accepted req \<Longrightarrow> server env req context d = (Inl e, d)"
  by (cases req) (simp_all add: accepted_def action_defs defineAction_def handler_defs await_sync_Inl)

lemma first_filter_None: "first (filter p xs) = None \<longleftrightarrow> (\<forall>x \<in> set xs. \<not> p x)"
  by (induction xs) auto

lemma first_filter_Some: "first (filter p xs) = Some x \<Longrightarrow> x \<in> set xs \<and> p x"
  by (induction xs) (auto split: if_splits)

lemma getOwnedBook_eq:
  "getOwnedBook bookId userId d =
     (case first (filter (\<lambda>r. book_id r = bookId \<and> book_userId r = userId) (Books d)) of
        None \<Rightarrow> Inl (ActionError NOT_FOUND ''Book not found.'')
      | Some book \<Rightarrow> Inr book,
      touch (SELECT TBooks) d)"
  by (simp add: getOwnedBook_def await_def select_Books_def throw_def resolve_def
      split: option.splits)

lemma getOwnedBook_missing:
  "userId \<notin> set (book_owners d bookId) \<Longrightarrow>
   getOwnedBook bookId userId d =
     (Inl (ActionError NOT_FOUND ''Book not found.''), touch (SELECT TBooks) d)"
  by (auto simp: getOwnedBook_eq book_owners_def first_filter_None split: option.splits
      dest!: first_filter_Some)

lemma getOwnedBook_found:
  "getOwnedBook bookId userId d = (Inr book, d') \<Longrightarrow>
   d' = touch (SELECT TBooks) d \<and> book \<in> set (Books d) \<and> book_id book = bookId
   \<and> book_userId book = userId"
  by (auto simp: getOwnedBook_eq split: option.splits dest!: first_filter_Some)

lemma getOwnedBook_fails:
  "getOwnedBook bookId userId d = (Inl e, d') \<Longrightarrow>
   d' = touch (SELECT TBooks) d \<and> e = ActionError NOT_FOUND ''Book not found.''"
  by (auto simp: getOwnedBook_eq split: option.splits)

lemma touch_fields [simp]:
  "Books (touch a d) = Books d" "BookSections (touch a d) = BookSections d"
  "SectionSummaries (touch a d) = SectionSummaries d" "foreign_keys (touch a d) = foreign_keys d"
  "trace (touch a d) = trace d @ [a]"
  by (simp_all add: touch_def)

lemma rows_touch [simp]: "rows (touch a d) = rows d"
  by (simp add: rows_def)

lemma getOwnedSection_eq:
  "getOwnedSection sectionId bookId userId d =
     (case getOwnedBook bookId userId d of
        (Inl e, d') \<Rightarrow> (Inl e, d')
      | (Inr _, d') \<Rightarrow>
          (case first (filter (\<lambda>r. section_id r = sectionId \<and> section_bookId r = bookId)
                         (BookSections d)) of
             None \<Rightarrow> Inl (ActionError NOT_FOUND ''Section not found.'')
           | Some section \<Rightarrow> Inr section,
           touch (SELECT TBookSections) d'))"
  by (auto simp: getOwnedSection_def await_def select_BookSections_def throw_def resolve_def
      split: option.splits sum.splits prod.splits dest!: getOwnedBook_found)

lemma getOwnedSection_fails:
  "getOwnedSection sectionId bookId userId d = (Inl e, d') \<Longrightarrow>
   rows d' = rows d \<and> (\<exists>message. e = ActionError NOT_FOUND message)"
  by (auto simp: getOwnedSection_eq split: option.splits sum.splits prod.splits
      dest!: getOwnedBook_found getOwnedBook_fails)

lemma getOwnedSection_found:
  "getOwnedSection sectionId bookId userId d = (Inr section, d') \<Longrightarrow>
   d' = touch (SELECT TBookSections) (touch (SELECT TBooks) d)
   \<and> section \<in> set (BookSections d) \<and> section_id section = sectionId
   \<and> section_bookId section = bookId
   \<and> (\<exists>book \<in> set (Books d). book_id book = bookId \<and> book_userId book = userId)"
  by (auto simp: getOwnedSection_eq split: option.splits sum.splits prod.splits
      dest!: getOwnedBook_found first_filter_Some)

lemma getOwnedSection_missing:
  "userId \<notin> set (section_owners d sectionId) \<Longrightarrow>
   \<exists>message d'. getOwnedSection sectionId bookId userId d =
     (Inl (ActionError NOT_FOUND message), d') \<and> rows d' = rows d"
proof (cases "getOwnedSection sectionId bookId userId d")
  case (Pair r d')
  assume no: "userId \<notin> set (section_owners d sectionId)"
  show ?thesis
  proof (cases r)
    case (Inl e)
    with Pair getOwnedSection_fails show ?thesis by blast
  next
    case (Inr row)
    with Pair have "row \<in> set (BookSections d)" "section_id row = sectionId"
      "section_bookId row = bookId"
      "\<exists>book \<in> set (Books d). book_id book = bookId \<and> book_userId book = userId"
      using getOwnedSection_found by blast+
    then have "userId \<in> set (section_owners d sectionId)"
      by (auto simp: section_owners_def book_owners_def)
    with no show ?thesis by simp
  qed
qed

lemmas sample_defs =
  signedIn_def signedOut_def mobyDick_def emma_def loomings_def carpetBag_def hartfield_def
  spouter_def summaryOf_def library_def emptyLibrary_def newChapter_def storedChapter_def
  blankOut_def retitle_def annotate_def remove_def persuasion_def translate_def novel_def
  createThenUpdate_def

lemmas io_defs = await_def resolve_def throw_def sync_def touch_def defineAction_def

lemmas statement_defs =
  select_Books_def select_BookSections_def select_SectionSummaries_def
  insert_Books_def insert_BookSections_def insert_SectionSummaries_def
  update_Books_def update_BookSections_def delete_BookSections_def delete_SectionSummaries_def

lemmas schema_defs =
  createBook_schema_def updateBook_schema_def createBookSection_schema_def
  updateBookSection_schema_def deleteBookSection_schema_def listBookSections_schema_def
  createSectionSummary_schema_def listSectionSummaries_schema_def min1_def min1_optional_def

lemmas run_defs =
  action_defs handler_defs io_defs statement_defs schema_defs requireUser_def
  getOwnedBook_def getOwnedSection_def updateBook_set_def updateBookSection_set_def

subsection \<open>Validation comes first\<close>

text \<open>
  Claim C4. An \<open>updateBook\<close> or \<open>updateBookSection\<close> call that supplies none of the
  optional fields fails with \<open>VALIDATION\<close>, whoever calls it and whatever the database
  holds, and it returns the database as it was: the rows and the trace are the same, so
  no statement, not even a read, was issued before the input was rejected.
\<close>

theorem validation_gate:
  "(ub_title ub = None \<and> ub_author ub = None \<and> ub_sourceType ub = None
      \<and> ub_sourceUrl ub = None \<and> ub_language ub = None \<and> ub_notes ub = None
     \<longrightarrow> updateBook env ub context d = (Inl VALIDATION, d))
   \<and> (us_sectionType us = None \<and> us_orderIndex us = None \<and> us_title us = None
      \<and> us_rawText us = None
     \<longrightarrow> updateBookSection us context d = (Inl VALIDATION, d))"
  by (simp add: updateBook_def updateBookSection_def updateBook_schema_def
      updateBookSection_schema_def rejected)

theorem validation_gate_witness:
  "updateBook \<lparr>randomUUID = ''B9'', newDate = 5000\<rparr>
     \<lparr>ub_id = ''B1'', ub_title = None, ub_author = None, ub_sourceType = None,
      ub_sourceUrl = None, ub_language = None, ub_notes = None\<rparr>
     (signedIn ''U1'') (library False) = (Inl VALIDATION, library False)
   \<and> updateBookSection
     \<lparr>us_id = ''S1'', us_bookId = ''B1'', us_sectionType = None, us_orderIndex = None,
      us_title = None, us_rawText = None\<rparr>
     (signedIn ''U1'') (library False) = (Inl VALIDATION, library False)"
  using validation_gate [of
     "\<lparr>ub_id = ''B1'', ub_title = None, ub_author = None, ub_sourceType = None,
      ub_sourceUrl = None, ub_language = None, ub_notes = None\<rparr>"
     "\<lparr>randomUUID = ''B9'', newDate = 5000\<rparr>" "signedIn ''U1''" "library False"
     "\<lparr>us_id = ''S1'', us_bookId = ''B1'', us_sectionType = None, us_orderIndex = None,
      us_title = None, us_rawText = None\<rparr>"]
  by simp


text \<open>
  What an action does for a request without identity: the schema is checked first, then
  \<open>requireUser\<close> throws, and nothing has touched the database.
\<close>

lemma identity_None:
  "identity context = None \<Longrightarrow>
   requireUser context =
     Inl (ActionError UNAUTHORIZED ''You must be signed in to perform this action.'')"
proof (cases "context_locals context")
  case None
  then show ?thesis by (simp add: requireUser_def)
next
  case (Some l)
  assume "identity context = None"
  with Some show ?thesis by (simp add: identity_def requireUser_def)
qed

lemma identity_Some: "identity context = Some user \<longleftrightarrow> requireUser context = Inr user"
proof (cases "context_locals context")
  case None
  then show ?thesis by (simp add: identity_def requireUser_def)
next
  case (Some l)
  then show ?thesis by (cases "locals_user l") (simp_all add: identity_def requireUser_def)
qed

text \<open>
  Claim C6, as the code has it. For each action of \<open>server\<close> (there are nine), a request
  without an authenticated identity fails and leaves the database exactly as it was, trace
  included, so that no read or write reached the store. The failure is \<open>UNAUTHORIZED\<close>
  when the input passes the action's schema; an input the schema rejects has already
  failed with \<open>VALIDATION\<close>, because \<open>requireUser\<close> is called inside the handler.
\<close>

theorem unauthorized_before_persistence:
  assumes "identity context = None"
  shows "server env req context d =
     (Inl (if accepted req
           then ActionError UNAUTHORIZED ''You must be signed in to perform this action.''
           else VALIDATION), d)"
  using identity_None [OF assms] by (simp add: not_accepted server_signed_out)

theorem unauthorized_before_persistence_witness:
  "identity signedOut = None
   \<and> server \<lparr>randomUUID = ''B9'', newDate = 5000\<rparr>
       (CreateBook \<lparr>cb_title = ''Persuasion'', cb_author = None, cb_sourceType = None,
                    cb_sourceUrl = None, cb_language = None, cb_notes = None\<rparr>)
       signedOut (library True) =
     (Inl (ActionError UNAUTHORIZED ''You must be signed in to perform this action.''),
      library True)"
proof -
  have h: "identity signedOut = None"
    by (simp add: identity_def signedOut_def)
  show ?thesis
    using h unauthorized_before_persistence [OF h, of "\<lparr>randomUUID = ''B9'', newDate = 5000\<rparr>"
      "CreateBook \<lparr>cb_title = ''Persuasion'', cb_author = None, cb_sourceType = None,
                    cb_sourceUrl = None, cb_language = None, cb_notes = None\<rparr>" "library True"]
    by (simp add: accepted_def createBook_schema_def min1_def)
qed

text \<open>
  Claim C6 as stated fails: \<open>updateBook\<close> called without identity and with no optional
  field does not fail with \<open>UNAUTHORIZED\<close> but with \<open>VALIDATION\<close>.
\<close>

theorem unauthorized_first_counterexample:
  "identity signedOut = None
   \<and> server \<lparr>randomUUID = ''B9'', newDate = 5000\<rparr>
       (UpdateBook \<lparr>ub_id = ''B1'', ub_title = None, ub_author = None, ub_sourceType = None,
                    ub_sourceUrl = None, ub_language = None, ub_notes = None\<rparr>)
       signedOut (library True) = (Inl VALIDATION, library True)"
  by (simp add: identity_def signedOut_def updateBook_def defineAction_def
      updateBook_schema_def throw_def)

subsection \<open>Ownership\<close>

lemma rejected_or_handled:
  "defineAction input handler raw context d =
     (if input raw then handler raw context d else (Inl VALIDATION, d))"
  by (simp add: defineAction_def throw_def)

lemma await_getOwnedBook_missing:
  "userId \<notin> set (book_owners d bookId) \<Longrightarrow>
   await (getOwnedBook bookId userId) k d =
     (Inl (ActionError NOT_FOUND ''Book not found.''), touch (SELECT TBooks) d)"
  by (simp add: await_def getOwnedBook_missing)

lemma await_getOwnedSection_missing:
  assumes "userId \<notin> set (section_owners d sectionId)"
  shows "\<exists>message d'. await (getOwnedSection sectionId bookId userId) k d =
     (Inl (ActionError NOT_FOUND message), d') \<and> rows d' = rows d"
  using getOwnedSection_missing [OF assms, of bookId] by (auto simp: await_def)

lemma not_owner_handled:
  assumes "requireUser context = Inr user"
    and "accepted req"
    and "target_owners d req = Some owners"
    and "user_id user \<notin> set owners"
  shows "(\<exists>message. fst (server env req context d) = Inl (ActionError NOT_FOUND message))
     \<and> rows (snd (server env req context d)) = rows d"
proof (cases req)
  case (CreateBookSection input)
  with assms show ?thesis
    by (simp add: accepted_def createBookSection_def createBookSection_handler_def
        rejected_or_handled await_sync_Inr await_getOwnedBook_missing)
next
  case (ListBookSections input)
  with assms show ?thesis
    by (simp add: accepted_def listBookSections_def listBookSections_handler_def
        rejected_or_handled await_sync_Inr await_getOwnedBook_missing)
next
  case (UpdateBookSection input)
  with assms have "user_id user \<notin> set (section_owners d (us_id input))" by auto
  from await_getOwnedSection_missing [OF this] obtain message d'
    where "updateBookSection_handler input context d = (Inl (ActionError NOT_FOUND message), d')"
      and "rows d' = rows d"
    unfolding updateBookSection_handler_def using assms(1) by (fastforce simp: await_sync_Inr)
  with UpdateBookSection assms(2) show ?thesis
    by (simp add: accepted_def updateBookSection_def rejected_or_handled)
next
  case (DeleteBookSection input)
  with assms have "user_id user \<notin> set (section_owners d (ds_id input))" by auto
  from await_getOwnedSection_missing [OF this] obtain message d'
    where "deleteBookSection_handler input context d = (Inl (ActionError NOT_FOUND message), d')"
      and "rows d' = rows d"
    unfolding deleteBookSection_handler_def using assms(1) by (fastforce simp: await_sync_Inr)
  with DeleteBookSection assms(2) show ?thesis
    by (simp add: accepted_def deleteBookSection_def rejected_or_handled)
next
  case (CreateSectionSummary input)
  with assms have "user_id user \<notin> set (section_owners d (cm_sectionId input))" by auto
  from await_getOwnedSection_missing [OF this] obtain message d'
    where "createSectionSummary_handler env input context d = (Inl (ActionError NOT_FOUND message), d')"
      and "rows d' = rows d"
    unfolding createSectionSummary_handler_def using assms(1) by (fastforce simp: await_sync_Inr)
  with CreateSectionSummary assms(2) show ?thesis
    by (simp add: accepted_def createSectionSummary_def rejected_or_handled)
next
  case (ListSectionSummaries input)
  with assms have "user_id user \<notin> set (section_owners d (lm_sectionId input))" by auto
  from await_getOwnedSection_missing [OF this] obtain message d'
    where "listSectionSummaries_handler input context d = (Inl (ActionError NOT_FOUND message), d')"
      and "rows d' = rows d"
    unfolding listSectionSummaries_handler_def using assms(1) by (fastforce simp: await_sync_Inr)
  with ListSectionSummaries assms(2) show ?thesis
    by (simp add: accepted_def listSectionSummaries_def rejected_or_handled)
qed (use assms in simp_all)

text \<open>
  Claim C1. Take a Section or Summary action called by an authenticated user on a target
  whose owning book belongs to somebody else. The call fails and leaves the rows of all
  three tables as they were, and the failure is \<open>NOT_FOUND\<close> whenever the input has
  passed the action's schema (the handler, and with it the ownership check, only runs
  then). The section and book ids of the input are arbitrary: naming a book of one's own
  together with somebody else's section does not help.
\<close>

theorem ownership_invariant:
  assumes "requireUser context = Inr user"
    and "target_owners d req = Some owners"
    and "user_id user \<notin> set owners"
  shows "(accepted req \<longrightarrow>
       (\<exists>message. fst (server env req context d) = Inl (ActionError NOT_FOUND message)))
     \<and> (\<exists>e. fst (server env req context d) = Inl e)
     \<and> rows (snd (server env req context d)) = rows d"
proof (cases "accepted req")
  case True
  from not_owner_handled [OF assms(1) True assms(2,3)] True show ?thesis by auto
next
  case False
  then show ?thesis by (simp add: not_accepted)
qed

theorem ownership_invariant_witness:
  "requireUser (signedIn ''U2'') = Inr \<lparr>user_id = ''U2''\<rparr>
   \<and> accepted (UpdateBookSection
         \<lparr>us_id = ''S1'', us_bookId = ''B2'', us_sectionType = None, us_orderIndex = Some 4,
          us_title = None, us_rawText = None\<rparr>)
   \<and> target_owners (library True) (UpdateBookSection
         \<lparr>us_id = ''S1'', us_bookId = ''B2'', us_sectionType = None, us_orderIndex = Some 4,
          us_title = None, us_rawText = None\<rparr>) = Some [''U1'']
   \<and> ''U2'' \<notin> set [''U1'']
   \<and> fst (server \<lparr>randomUUID = ''S9'', newDate = 5000\<rparr> (UpdateBookSection
         \<lparr>us_id = ''S1'', us_bookId = ''B2'', us_sectionType = None, us_orderIndex = Some 4,
          us_title = None, us_rawText = None\<rparr>) (signedIn ''U2'') (library True))
       = Inl (ActionError NOT_FOUND ''Section not found.'')
   \<and> rows (snd (server \<lparr>randomUUID = ''S9'', newDate = 5000\<rparr> (UpdateBookSection
         \<lparr>us_id = ''S1'', us_bookId = ''B2'', us_sectionType = None, us_orderIndex = Some 4,
          us_title = None, us_rawText = None\<rparr>) (signedIn ''U2'') (library True)))
       = rows (library True)"
proof -
  let ?req = "UpdateBookSection
         \<lparr>us_id = ''S1'', us_bookId = ''B2'', us_sectionType = None, us_orderIndex = Some 4,
          us_title = None, us_rawText = None\<rparr>"
  have h1: "requireUser (signedIn ''U2'') = Inr \<lparr>user_id = ''U2''\<rparr>"
    by (simp add: requireUser_def signedIn_def)
  have h2: "accepted ?req"
    by (simp add: accepted_def updateBookSection_schema_def min1_def)
  have h3: "target_owners (library True) ?req = Some [''U1'']"
    by (simp add: section_owners_def book_owners_def sample_defs)
  have h4: "user_id \<lparr>user_id = ''U2''\<rparr> \<notin> set [''U1'']"
    by simp
  have run: "server \<lparr>randomUUID = ''S9'', newDate = 5000\<rparr> ?req (signedIn ''U2'') (library True)
      = (Inl (ActionError NOT_FOUND ''Section not found.''),
         touch (SELECT TBookSections) (touch (SELECT TBooks) (library True)))"
    by (simp add: run_defs sample_defs)
  from ownership_invariant [OF h1 h3 h4, of "\<lparr>randomUUID = ''S9'', newDate = 5000\<rparr>"]
  have "rows (snd (server \<lparr>randomUUID = ''S9'', newDate = 5000\<rparr> ?req (signedIn ''U2'')
      (library True))) = rows (library True)"
    by simp
  with h1 h2 h3 run show ?thesis by simp
qed

lemma await_getOwnedSection_book_missing:
  "userId \<notin> set (book_owners d bookId) \<Longrightarrow>
   await (getOwnedSection sectionId bookId userId) k d =
     (Inl (ActionError NOT_FOUND ''Book not found.''), touch (SELECT TBooks) d)"
  by (simp add: getOwnedSection_def await_def getOwnedBook_missing)

lemma not_owned_handler:
  assumes "requireUser context = Inr user"
    and "target_book req = Some bookId"
    and "user_id user \<notin> set (book_owners d bookId)"
    and "accepted req"
  shows "server env req context d =
     (Inl (ActionError NOT_FOUND ''Book not found.''), touch (SELECT TBooks) d)"
  using assms
  by (cases req)
    (simp_all add: accepted_def action_defs handler_defs rejected_or_handled await_sync_Inr
      await_getOwnedBook_missing await_getOwnedSection_book_missing)

text \<open>
  Claim C7. Take a requester and two databases in neither of which the requester owns a
  book with the given id: in one the book may not exist at all, in the other it may
  belong to somebody else. Every action called on that book id returns the same outcome
  in both, leaves the rows of both as they were, and for an input the schema accepts
  the outcome is the one error \<open>NOT_FOUND\<close>, "Book not found.".
\<close>

theorem existence_not_leaked:
  assumes "requireUser context = Inr user"
    and "target_book req = Some bookId"
    and "user_id user \<notin> set (book_owners d1 bookId)"
    and "user_id user \<notin> set (book_owners d2 bookId)"
  shows "fst (server env req context d1) = fst (server env req context d2)
     \<and> (accepted req \<longrightarrow>
          fst (server env req context d1) = Inl (ActionError NOT_FOUND ''Book not found.''))
     \<and> rows (snd (server env req context d1)) = rows d1
     \<and> rows (snd (server env req context d2)) = rows d2"
proof (cases "accepted req")
  case True
  with assms show ?thesis by (simp add: not_owned_handler)
next
  case False
  then show ?thesis by (simp add: not_accepted)
qed

theorem existence_not_leaked_witness:
  "requireUser (signedIn ''U1'') = Inr \<lparr>user_id = ''U1''\<rparr>
   \<and> book_owners emptyLibrary ''B2'' = []
   \<and> book_owners (library True) ''B2'' = [''U2'']
   \<and> accepted (ListBookSections \<lparr>ls_bookId = ''B2''\<rparr>)
   \<and> fst (server \<lparr>randomUUID = ''S9'', newDate = 5000\<rparr>
          (ListBookSections \<lparr>ls_bookId = ''B2''\<rparr>) (signedIn ''U1'') emptyLibrary)
       = Inl (ActionError NOT_FOUND ''Book not found.'')
   \<and> fst (server \<lparr>randomUUID = ''S9'', newDate = 5000\<rparr>
          (ListBookSections \<lparr>ls_bookId = ''B2''\<rparr>) (signedIn ''U1'') (library True))
       = Inl (ActionError NOT_FOUND ''Book not found.'')"
proof -
  have h1: "requireUser (signedIn ''U1'') = Inr \<lparr>user_id = ''U1''\<rparr>"
    by (simp add: requireUser_def signedIn_def)
  have h2: "target_book (ListBookSections \<lparr>ls_bookId = ''B2''\<rparr>) = Some ''B2''"
    by simp
  have o1: "book_owners emptyLibrary ''B2'' = []"
    by (simp add: book_owners_def sample_defs)
  have o2: "book_owners (library True) ''B2'' = [''U2'']"
    by (simp add: book_owners_def sample_defs)
  have h3: "user_id \<lparr>user_id = ''U1''\<rparr> \<notin> set (book_owners emptyLibrary ''B2'')"
    by (simp add: o1)
  have h4: "user_id \<lparr>user_id = ''U1''\<rparr> \<notin> set (book_owners (library True) ''B2'')"
    by (simp add: o2)
  have h5: "accepted (ListBookSections \<lparr>ls_bookId = ''B2''\<rparr>)"
    by (simp add: accepted_def listBookSections_schema_def min1_def)
  note leak = existence_not_leaked [OF h1 h2 h3 h4, of "\<lparr>randomUUID = ''S9'', newDate = 5000\<rparr>"]
  from leak h5 have a:
    "fst (server \<lparr>randomUUID = ''S9'', newDate = 5000\<rparr>
          (ListBookSections \<lparr>ls_bookId = ''B2''\<rparr>) (signedIn ''U1'') emptyLibrary)
       = Inl (ActionError NOT_FOUND ''Book not found.'')"
    by blast
  from leak have
    "fst (server \<lparr>randomUUID = ''S9'', newDate = 5000\<rparr>
          (ListBookSections \<lparr>ls_bookId = ''B2''\<rparr>) (signedIn ''U1'') emptyLibrary)
     = fst (server \<lparr>randomUUID = ''S9'', newDate = 5000\<rparr>
          (ListBookSections \<lparr>ls_bookId = ''B2''\<rparr>) (signedIn ''U1'') (library True))"
    by blast
  with a have b:
    "fst (server \<lparr>randomUUID = ''S9'', newDate = 5000\<rparr>
          (ListBookSections \<lparr>ls_bookId = ''B2''\<rparr>) (signedIn ''U1'') (library True))
       = Inl (ActionError NOT_FOUND ''Book not found.'')"
    by simp
  from h1 o1 o2 h5 a b show ?thesis by blast
qed

subsection \<open>What a handler does once the requester is known\<close>

lemma first_filter_eq_None: "first (filter p xs) = None \<longleftrightarrow> \<not> list_ex p xs"
  by (induction xs) auto

lemma await_getOwnedBook:
  "await (getOwnedBook bookId userId) (\<lambda>_. m) d =
     (if userId \<in> set (book_owners d bookId) then m (touch (SELECT TBooks) d)
      else (Inl (ActionError NOT_FOUND ''Book not found.''), touch (SELECT TBooks) d))"
proof (cases "userId \<in> set (book_owners d bookId)")
  case True
  then have "first (filter (\<lambda>r. book_id r = bookId \<and> book_userId r = userId) (Books d)) \<noteq> None"
    by (auto simp: book_owners_def first_filter_None)
  with True show ?thesis
    by (auto simp: await_def getOwnedBook_eq)
next
  case False
  then show ?thesis by (simp add: await_getOwnedBook_missing)
qed

lemma await_assoc: "await (await m k) k' = await m (\<lambda>x. await (k x) k')"
  by (rule ext) (simp add: await_def split: prod.splits sum.splits)

lemma await_select_section:
  "await (await (select_BookSections
                  (\<lambda>r. section_id r = sectionId \<and> section_bookId r = bookId))
            (\<lambda>rows. case first rows of None \<Rightarrow> throw e | Some s \<Rightarrow> resolve s))
     (\<lambda>_. m) d =
     (if has_section d bookId sectionId then m (touch (SELECT TBookSections) d)
      else (Inl e, touch (SELECT TBookSections) d))"
proof (cases "first (filter (\<lambda>r. section_id r = sectionId \<and> section_bookId r = bookId)
                  (BookSections d))")
  case None
  then have "\<not> has_section d bookId sectionId"
    using first_filter_eq_None
      [of "\<lambda>r. section_id r = sectionId \<and> section_bookId r = bookId" "BookSections d"]
    by (simp add: has_section_def)
  with None show ?thesis
    by (simp add: await_def select_BookSections_def throw_def)
next
  case (Some row)
  then have "has_section d bookId sectionId"
    using first_filter_eq_None
      [of "\<lambda>r. section_id r = sectionId \<and> section_bookId r = bookId" "BookSections d"]
    by (simp add: has_section_def)
  with Some show ?thesis
    by (simp add: await_def select_BookSections_def resolve_def)
qed

lemma await_getOwnedSection:
  "await (getOwnedSection sectionId bookId userId) (\<lambda>_. m) d =
     (if userId \<notin> set (book_owners d bookId)
      then (Inl (ActionError NOT_FOUND ''Book not found.''), touch (SELECT TBooks) d)
      else if \<not> has_section d bookId sectionId
      then (Inl (ActionError NOT_FOUND ''Section not found.''),
            touch (SELECT TBookSections) (touch (SELECT TBooks) d))
      else m (touch (SELECT TBookSections) (touch (SELECT TBooks) d)))"
proof -
  have "await (getOwnedSection sectionId bookId userId) (\<lambda>_. m) d =
      await (getOwnedBook bookId userId)
        (\<lambda>_. await (await (select_BookSections
                      (\<lambda>r. section_id r = sectionId \<and> section_bookId r = bookId))
                (\<lambda>rows. case first rows of
                           None \<Rightarrow> throw (ActionError NOT_FOUND ''Section not found.'')
                         | Some s \<Rightarrow> resolve s)) (\<lambda>_. m)) d"
    by (simp add: getOwnedSection_def await_assoc)
  also have "\<dots> =
     (if userId \<in> set (book_owners d bookId)
      then await (await (select_BookSections
                      (\<lambda>r. section_id r = sectionId \<and> section_bookId r = bookId))
                (\<lambda>rows. case first rows of
                           None \<Rightarrow> throw (ActionError NOT_FOUND ''Section not found.'')
                         | Some s \<Rightarrow> resolve s)) (\<lambda>_. m) (touch (SELECT TBooks) d)
      else (Inl (ActionError NOT_FOUND ''Book not found.''), touch (SELECT TBooks) d))"
    by (rule await_getOwnedBook)
  also have "\<dots> =
     (if userId \<notin> set (book_owners d bookId)
      then (Inl (ActionError NOT_FOUND ''Book not found.''), touch (SELECT TBooks) d)
      else if \<not> has_section d bookId sectionId
      then (Inl (ActionError NOT_FOUND ''Section not found.''),
            touch (SELECT TBookSections) (touch (SELECT TBooks) d))
      else m (touch (SELECT TBookSections) (touch (SELECT TBooks) d)))"
    by (simp add: await_select_section has_section_def)
  finally show ?thesis .
qed

lemma createBookSection_run:
  assumes "requireUser context = Inr user" and "createBookSection_schema input"
  shows "createBookSection env input context d =
     (if user_id user \<notin> set (book_owners d (cs_bookId input))
      then (Inl (ActionError NOT_FOUND ''Book not found.''), touch (SELECT TBooks) d)
      else await (insert_BookSections
                   \<lparr>section_id = randomUUID env,
                    section_bookId = cs_bookId input,
                    section_sectionType = cs_sectionType input,
                    section_orderIndex =
                      Some (case cs_orderIndex input of None \<Rightarrow> 1 | Some n \<Rightarrow> n),
                    section_title = cs_title input,
                    section_rawText = cs_rawText input,
                    section_createdAt = newDate env\<rparr>)
             (\<lambda>rows. resolve (SectionData (first rows))) (touch (SELECT TBooks) d))"
  using assms
  by (simp add: createBookSection_def createBookSection_handler_def rejected_or_handled
      await_sync_Inr await_getOwnedBook)

lemma succeeds_accepted: "server env req context d = (Inr r, d') \<Longrightarrow> accepted req"
  using not_accepted [of req env "context" d] by auto

lemma succeeds_signed_in:
  "server env req context d = (Inr r, d') \<Longrightarrow> \<exists>user. requireUser context = Inr user"
  using server_signed_out [of "context" _ req env d]
    succeeds_accepted [of env req "context" d r d'] requireUser_cases [of "context"]
  by auto

subsection \<open>Creating a section\<close>

text \<open>
  Claim C8. A \<open>createBookSection\<close> call that succeeds returns the row it stored, with
  \<open>orderIndex\<close> 1 when the input omits it and the supplied integer otherwise; the row is
  appended to the table and every other row of the database is left as it was, whatever
  their \<open>orderIndex\<close> values are. And the call does succeed for an authenticated owner
  of the book, an accepted input and a fresh id, whichever \<open>orderIndex\<close> values the
  table already holds.
\<close>

theorem createBookSection_orderIndex:
  "(createBookSection env input context d = (Inr r, d') \<longrightarrow>
      (\<exists>s. r = SectionData (Some s)
         \<and> section_orderIndex s = Some (case cs_orderIndex input of None \<Rightarrow> 1 | Some n \<Rightarrow> n)
         \<and> section_id s = randomUUID env
         \<and> section_bookId s = cs_bookId input
         \<and> BookSections d' = BookSections d @ [s]
         \<and> Books d' = Books d
         \<and> SectionSummaries d' = SectionSummaries d))
   \<and> (requireUser context = Inr user \<and> createBookSection_schema input
        \<and> user_id user \<in> set (book_owners d (cs_bookId input))
        \<and> randomUUID env \<notin> set (map section_id (BookSections d))
      \<longrightarrow> (\<exists>s d''. createBookSection env input context d = (Inr (SectionData (Some s)), d'')))"
proof (intro conjI impI)
  assume ok: "createBookSection env input context d = (Inr r, d')"
  then have "server env (CreateBookSection input) context d = (Inr r, d')" by simp
  from succeeds_accepted [OF this] succeeds_signed_in [OF this]
  obtain u where "requireUser context = Inr u" and "createBookSection_schema input"
    by (auto simp: accepted_def)
  from createBookSection_run [OF this] ok
  show "\<exists>s. r = SectionData (Some s)
         \<and> section_orderIndex s = Some (case cs_orderIndex input of None \<Rightarrow> 1 | Some n \<Rightarrow> n)
         \<and> section_id s = randomUUID env
         \<and> section_bookId s = cs_bookId input
         \<and> BookSections d' = BookSections d @ [s]
         \<and> Books d' = Books d
         \<and> SectionSummaries d' = SectionSummaries d"
    by (auto simp: await_def insert_BookSections_def resolve_def split: if_splits)
next
  assume "requireUser context = Inr user \<and> createBookSection_schema input
        \<and> user_id user \<in> set (book_owners d (cs_bookId input))
        \<and> randomUUID env \<notin> set (map section_id (BookSections d))"
  then have u: "requireUser context = Inr user" and v: "createBookSection_schema input"
    and o: "user_id user \<in> set (book_owners d (cs_bookId input))"
    and f: "randomUUID env \<notin> set (map section_id (BookSections d))"
    by simp_all
  from o have "cs_bookId input \<in> set (map book_id (Books d))"
    by (force simp: book_owners_def)
  with createBookSection_run [OF u v, of env d] o f
  show "\<exists>s d''. createBookSection env input context d = (Inr (SectionData (Some s)), d'')"
    by (simp add: await_def insert_BookSections_def resolve_def)
qed

lemma createBookSection_example:
  "createBookSection \<lparr>randomUUID = ''S9'', newDate = 5000\<rparr> (newChapter orderIndex)
     (signedIn ''U1'') (library True) =
   (Inr (SectionData (Some (storedChapter (case orderIndex of None \<Rightarrow> 1 | Some n \<Rightarrow> n)))),
    touch (INSERT TBookSections)
      ((touch (SELECT TBooks) (library True))
         \<lparr>BookSections :=
            [loomings, carpetBag, hartfield, spouter,
             storedChapter (case orderIndex of None \<Rightarrow> 1 | Some n \<Rightarrow> n)]\<rparr>))"
  by (simp add: run_defs sample_defs)

theorem createBookSection_orderIndex_witness:
  "fst (createBookSection \<lparr>randomUUID = ''S9'', newDate = 5000\<rparr> (newChapter None)
          (signedIn ''U1'') (library True)) = Inr (SectionData (Some (storedChapter 1)))
   \<and> section_orderIndex (storedChapter 1) = Some 1
   \<and> BookSections (snd (createBookSection \<lparr>randomUUID = ''S9'', newDate = 5000\<rparr>
          (newChapter None) (signedIn ''U1'') (library True)))
       = BookSections (library True) @ [storedChapter 1]
   \<and> fst (createBookSection \<lparr>randomUUID = ''S9'', newDate = 5000\<rparr> (newChapter (Some 3))
          (signedIn ''U1'') (library True)) = Inr (SectionData (Some (storedChapter 3)))
   \<and> section_orderIndex spouter = Some 3
   \<and> BookSections (snd (createBookSection \<lparr>randomUUID = ''S9'', newDate = 5000\<rparr>
          (newChapter (Some 3)) (signedIn ''U1'') (library True)))
       = BookSections (library True) @ [storedChapter 3]"
proof -
  let ?env = "\<lparr>randomUUID = ''S9'', newDate = 5000\<rparr>"
  let ?run1 = "createBookSection ?env (newChapter None) (signedIn ''U1'') (library True)"
  let ?run3 = "createBookSection ?env (newChapter (Some 3)) (signedIn ''U1'') (library True)"
  have r1: "?run1 = (Inr (SectionData (Some (storedChapter 1))), snd ?run1)"
    by (simp add: createBookSection_example)
  have r3: "?run3 = (Inr (SectionData (Some (storedChapter 3))), snd ?run3)"
    by (simp add: createBookSection_example)
  from createBookSection_orderIndex
    [of ?env "newChapter None" "signedIn ''U1''" "library True"
        "SectionData (Some (storedChapter 1))" "snd ?run1"] r1
  have a: "BookSections (snd ?run1) = BookSections (library True) @ [storedChapter 1]"
    by auto
  from createBookSection_orderIndex
    [of ?env "newChapter (Some 3)" "signedIn ''U1''" "library True"
        "SectionData (Some (storedChapter 3))" "snd ?run3"] r3
  have b: "BookSections (snd ?run3) = BookSections (library True) @ [storedChapter 3]"
    by auto
  have c: "section_orderIndex (storedChapter 1) = Some 1" "section_orderIndex spouter = Some 3"
    by (simp_all add: storedChapter_def spouter_def)
  from r1 r3 a b c show ?thesis by (metis fst_conv)
qed

subsection \<open>Updating a section\<close>

text \<open>
  Claim C2 does not hold of the code. \<open>createBookSection\<close> requires
  \<open>rawText\<close> to be \<open>z.string().min(1)\<close>, and \<open>updateBook\<close> keeps the same bound
  on \<open>title\<close> with \<open>z.string().min(1).optional()\<close>, but \<open>updateBookSection\<close>
  declares \<open>rawText\<close> as \<open>z.string().optional()\<close>. In a database whose sections
  all have text, the owner's update of S1 with the empty string succeeds, and the stored
  and returned row has an empty \<open>rawText\<close>.
\<close>

theorem updateBookSection_empties_rawText:
  "map section_rawText (BookSections (library True)) =
     [''Call me Ishmael'', ''I stuffed a shirt or two'', ''Emma Woodhouse'',
      ''Entering that gable-ended inn'']
   \<and> fst (updateBookSection blankOut (signedIn ''U1'') (library True)) =
       Inr (SectionData (Some (loomings\<lparr>section_rawText := ''''\<rparr>)))
   \<and> map section_rawText
        (BookSections (snd (updateBookSection blankOut (signedIn ''U1'') (library True)))) =
     ['''', ''I stuffed a shirt or two'', ''Emma Woodhouse'', ''Entering that gable-ended inn'']"
  by (simp add: run_defs sample_defs)

text \<open>
  With unique keys (\<open>id\<close> is the primary key of each table), the rows matched by
  \<open>where(eq(id, k))\<close> are the one row that has the key.
\<close>

lemma key_eq_index:
  assumes "distinct (map key xs)" and "i < length xs" and "j < length xs"
  shows "key (xs ! j) = key (xs ! i) \<longleftrightarrow> j = i"
  using assms nth_eq_iff_index_eq [of "map key xs" j i] by auto

lemma update_where_key:
  assumes "distinct (map key xs)" and "i < length xs"
  shows "map (\<lambda>r. if key r = key (xs ! i) then f r else r) xs = xs[i := f (xs ! i)]"
proof (rule nth_equalityI)
  show "length (map (\<lambda>r. if key r = key (xs ! i) then f r else r) xs) = length (xs[i := f (xs ! i)])"
    by simp
next
  fix j
  assume "j < length (map (\<lambda>r. if key r = key (xs ! i) then f r else r) xs)"
  then have j: "j < length xs" by simp
  with assms show "map (\<lambda>r. if key r = key (xs ! i) then f r else r) xs ! j = xs[i := f (xs ! i)] ! j"
    by (simp add: key_eq_index nth_list_update)
qed

lemma filter_where_key:
  assumes "distinct (map key xs)" and "i < length xs"
  shows "filter (\<lambda>r. key r = key (xs ! i)) xs = [xs ! i]"
  using assms
proof (induction xs arbitrary: i)
  case Nil
  then show ?case by simp
next
  case (Cons x xs)
  show ?case
  proof (cases i)
    case 0
    with Cons.prems have "\<forall>r \<in> set xs. key r \<noteq> key x" by (force simp: image_iff)
    then have "filter (\<lambda>r. key r = key x) xs = []" by (simp add: filter_empty_conv)
    with 0 show ?thesis by simp
  next
    case (Suc k)
    with Cons.prems have k: "k < length xs" and d: "distinct (map key xs)" by simp_all
    from Cons.prems Suc k have "key x \<noteq> key (xs ! k)" by (force simp: image_iff)
    with Cons.IH [OF d k] Suc show ?thesis by simp
  qed
qed

lemma updateBookSection_run:
  assumes "requireUser context = Inr user" and "updateBookSection_schema input"
  shows "updateBookSection input context d =
     (if user_id user \<notin> set (book_owners d (us_bookId input))
      then (Inl (ActionError NOT_FOUND ''Book not found.''), touch (SELECT TBooks) d)
      else if \<not> has_section d (us_bookId input) (us_id input)
      then (Inl (ActionError NOT_FOUND ''Section not found.''),
            touch (SELECT TBookSections) (touch (SELECT TBooks) d))
      else await (update_BookSections (updateBookSection_set input)
                   (\<lambda>r. section_id r = us_id input))
             (\<lambda>rows. resolve (SectionData (first rows)))
             (touch (SELECT TBookSections) (touch (SELECT TBooks) d)))"
  using assms
  by (simp add: updateBookSection_def updateBookSection_handler_def rejected_or_handled
      await_sync_Inr await_getOwnedSection)

text \<open>
  Claim C9. For a section of a book the requester owns, an accepted \<open>updateBookSection\<close>
  call succeeds, and the row it returns and stores in the section's place is the old row
  with the supplied ones of \<open>sectionType\<close>, \<open>orderIndex\<close>, \<open>title\<close> and
  \<open>rawText\<close> replaced: \<open>id\<close>, \<open>bookId\<close> and \<open>createdAt\<close> are the old ones. A section
  row has these seven columns and no other, so there is no modification time to set,
  and the books (the only rows with an \<open>updatedAt\<close>) are left as they were, as are the
  other sections and the summaries.
\<close>

theorem updateBookSection_frame:
  assumes "requireUser context = Inr user"
    and "updateBookSection_schema input"
    and "user_id user \<in> set (book_owners d (us_bookId input))"
    and "distinct (map section_id (BookSections d))"
    and "i < length (BookSections d)"
    and "BookSections d ! i = s"
    and "section_id s = us_id input"
    and "section_bookId s = us_bookId input"
  shows "\<exists>s' d'. updateBookSection input context d = (Inr (SectionData (Some s')), d')
     \<and> s' = \<lparr>section_id = section_id s,
              section_bookId = section_bookId s,
              section_sectionType =
                (case us_sectionType input of None \<Rightarrow> section_sectionType s | Some v \<Rightarrow> Some v),
              section_orderIndex =
                (case us_orderIndex input of None \<Rightarrow> section_orderIndex s | Some v \<Rightarrow> Some v),
              section_title =
                (case us_title input of None \<Rightarrow> section_title s | Some v \<Rightarrow> Some v),
              section_rawText =
                (case us_rawText input of None \<Rightarrow> section_rawText s | Some v \<Rightarrow> v),
              section_createdAt = section_createdAt s\<rparr>
     \<and> BookSections d' = (BookSections d)[i := s']
     \<and> Books d' = Books d
     \<and> SectionSummaries d' = SectionSummaries d"
proof -
  from assms(5,6) have mem: "s \<in> set (BookSections d)" by auto
  with assms(7,8) have has: "has_section d (us_bookId input) (us_id input)"
    by (auto simp: has_section_def list_ex_iff)
  have key: "(\<lambda>r. section_id r = us_id input) = (\<lambda>r. section_id r = section_id (BookSections d ! i))"
    using assms(6,7) by simp
  have sel: "filter (\<lambda>r. section_id r = us_id input) (BookSections d) = [s]"
    unfolding key using filter_where_key [OF assms(4,5)] assms(6) by simp
  have upd: "map (\<lambda>r. if section_id r = us_id input then updateBookSection_set input r else r)
       (BookSections d) = (BookSections d)[i := updateBookSection_set input s]"
    using update_where_key [OF assms(4,5), of "updateBookSection_set input"] assms(6,7) by simp
  have row: "updateBookSection_set input s =
      \<lparr>section_id = section_id s,
       section_bookId = section_bookId s,
       section_sectionType =
         (case us_sectionType input of None \<Rightarrow> section_sectionType s | Some v \<Rightarrow> Some v),
       section_orderIndex =
         (case us_orderIndex input of None \<Rightarrow> section_orderIndex s | Some v \<Rightarrow> Some v),
       section_title = (case us_title input of None \<Rightarrow> section_title s | Some v \<Rightarrow> Some v),
       section_rawText = (case us_rawText input of None \<Rightarrow> section_rawText s | Some v \<Rightarrow> v),
       section_createdAt = section_createdAt s\<rparr>"
    by (simp add: updateBookSection_set_def)
  from updateBookSection_run [OF assms(1,2), of d] assms(3) has
  have "updateBookSection input context d =
      (Inr (SectionData (Some (updateBookSection_set input s))),
       touch (UPDATE TBookSections)
         ((touch (SELECT TBookSections) (touch (SELECT TBooks) d))
            \<lparr>BookSections := (BookSections d)[i := updateBookSection_set input s]\<rparr>))"
    by (simp add: await_def update_BookSections_def resolve_def sel upd)
  then show ?thesis
    unfolding row by simp
qed

theorem updateBookSection_frame_witness:
  "requireUser (signedIn ''U1'') = Inr \<lparr>user_id = ''U1''\<rparr>
   \<and> updateBookSection_schema retitle
   \<and> ''U1'' \<in> set (book_owners (library True) ''B1'')
   \<and> distinct (map section_id (BookSections (library True)))
   \<and> BookSections (library True) ! 1 = carpetBag
   \<and> fst (updateBookSection retitle (signedIn ''U1'') (library True)) =
       Inr (SectionData (Some
         \<lparr>section_id = ''S2'', section_bookId = ''B1'', section_sectionType = Some ''chapter'',
          section_orderIndex = Some 2, section_title = Some ''The Carpet-Bag'',
          section_rawText = ''I stuffed a shirt or two'', section_createdAt = 1200\<rparr>))
   \<and> Books (snd (updateBookSection retitle (signedIn ''U1'') (library True)))
       = Books (library True)"
proof -
  have h1: "requireUser (signedIn ''U1'') = Inr \<lparr>user_id = ''U1''\<rparr>"
    by (simp add: requireUser_def signedIn_def)
  have h2: "updateBookSection_schema retitle"
    by (simp add: updateBookSection_schema_def min1_def retitle_def)
  have h3: "user_id \<lparr>user_id = ''U1''\<rparr> \<in> set (book_owners (library True) (us_bookId retitle))"
    by (simp add: book_owners_def sample_defs)
  have h4: "distinct (map section_id (BookSections (library True)))"
    by (simp add: sample_defs)
  have h5: "1 < length (BookSections (library True))"
    by (simp add: sample_defs)
  have h6: "BookSections (library True) ! 1 = carpetBag"
    by (simp add: sample_defs)
  have h7: "section_id carpetBag = us_id retitle"
    by (simp add: sample_defs)
  have h8: "section_bookId carpetBag = us_bookId retitle"
    by (simp add: sample_defs)
  from updateBookSection_frame [OF h1 h2 h3 h4 h5 h6 h7 h8]
  have "fst (updateBookSection retitle (signedIn ''U1'') (library True)) =
       Inr (SectionData (Some
         \<lparr>section_id = ''S2'', section_bookId = ''B1'', section_sectionType = Some ''chapter'',
          section_orderIndex = Some 2, section_title = Some ''The Carpet-Bag'',
          section_rawText = ''I stuffed a shirt or two'', section_createdAt = 1200\<rparr>))
     \<and> Books (snd (updateBookSection retitle (signedIn ''U1'') (library True)))
       = Books (library True)"
    by (auto simp: retitle_def carpetBag_def)
  with h1 h2 h3 h4 h6 show ?thesis by (simp add: retitle_def)
qed

subsection \<open>Updating a book\<close>

lemma updateBook_run:
  assumes "requireUser context = Inr user" and "updateBook_schema input"
  shows "updateBook env input context d =
     (if user_id user \<notin> set (book_owners d (ub_id input))
      then (Inl (ActionError NOT_FOUND ''Book not found.''), touch (SELECT TBooks) d)
      else await (update_Books (updateBook_set input (newDate env))
                   (\<lambda>r. book_id r = ub_id input))
             (\<lambda>rows. resolve (BookData (first rows))) (touch (SELECT TBooks) d))"
  using assms
  by (simp add: updateBook_def updateBook_handler_def rejected_or_handled await_sync_Inr
      await_getOwnedBook)

text \<open>
  Claim C3. For a book the requester owns, an accepted \<open>updateBook\<close> call succeeds, and
  the row it returns and stores in the book's place has each optional field equal to
  the supplied value when the input supplies one and to the old value when the input
  omits it, \<open>updatedAt\<close> equal to the time of the call, and \<open>id\<close>, \<open>userId\<close> and
  \<open>createdAt\<close> as before. No other row of the database changes.
\<close>

theorem updateBook_partial:
  assumes "requireUser context = Inr user"
    and "updateBook_schema input"
    and "distinct (map book_id (Books d))"
    and "i < length (Books d)"
    and "Books d ! i = b"
    and "book_id b = ub_id input"
    and "book_userId b = user_id user"
  shows "\<exists>b' d'. updateBook env input context d = (Inr (BookData (Some b')), d')
     \<and> b' = \<lparr>book_id = book_id b,
              book_userId = book_userId b,
              book_title = (case ub_title input of None \<Rightarrow> book_title b | Some v \<Rightarrow> v),
              book_author = (case ub_author input of None \<Rightarrow> book_author b | Some v \<Rightarrow> Some v),
              book_sourceType =
                (case ub_sourceType input of None \<Rightarrow> book_sourceType b | Some v \<Rightarrow> Some v),
              book_sourceUrl =
                (case ub_sourceUrl input of None \<Rightarrow> book_sourceUrl b | Some v \<Rightarrow> Some v),
              book_language =
                (case ub_language input of None \<Rightarrow> book_language b | Some v \<Rightarrow> Some v),
              book_notes = (case ub_notes input of None \<Rightarrow> book_notes b | Some v \<Rightarrow> Some v),
              book_createdAt = book_createdAt b,
              book_updatedAt = newDate env\<rparr>
     \<and> Books d' = (Books d)[i := b']
     \<and> BookSections d' = BookSections d
     \<and> SectionSummaries d' = SectionSummaries d"
proof -
  from assms(4,5) have mem: "b \<in> set (Books d)" by auto
  with assms(6,7) have own: "user_id user \<in> set (book_owners d (ub_id input))"
    by (force simp: book_owners_def)
  have key: "(\<lambda>r. book_id r = ub_id input) = (\<lambda>r. book_id r = book_id (Books d ! i))"
    using assms(5,6) by simp
  have sel: "filter (\<lambda>r. book_id r = ub_id input) (Books d) = [b]"
    unfolding key using filter_where_key [OF assms(3,4)] assms(5) by simp
  have upd: "map (\<lambda>r. if book_id r = ub_id input then updateBook_set input (newDate env) r else r)
       (Books d) = (Books d)[i := updateBook_set input (newDate env) b]"
    using update_where_key [OF assms(3,4), of "updateBook_set input (newDate env)"] assms(5,6)
    by simp
  have row: "updateBook_set input (newDate env) b =
      \<lparr>book_id = book_id b,
       book_userId = book_userId b,
       book_title = (case ub_title input of None \<Rightarrow> book_title b | Some v \<Rightarrow> v),
       book_author = (case ub_author input of None \<Rightarrow> book_author b | Some v \<Rightarrow> Some v),
       book_sourceType =
         (case ub_sourceType input of None \<Rightarrow> book_sourceType b | Some v \<Rightarrow> Some v),
       book_sourceUrl =
         (case ub_sourceUrl input of None \<Rightarrow> book_sourceUrl b | Some v \<Rightarrow> Some v),
       book_language = (case ub_language input of None \<Rightarrow> book_language b | Some v \<Rightarrow> Some v),
       book_notes = (case ub_notes input of None \<Rightarrow> book_notes b | Some v \<Rightarrow> Some v),
       book_createdAt = book_createdAt b,
       book_updatedAt = newDate env\<rparr>"
    by (simp add: updateBook_set_def)
  from updateBook_run [OF assms(1,2), of env d] own
  have "updateBook env input context d =
      (Inr (BookData (Some (updateBook_set input (newDate env) b))),
       touch (UPDATE TBooks)
         ((touch (SELECT TBooks) d)
            \<lparr>Books := (Books d)[i := updateBook_set input (newDate env) b]\<rparr>))"
    by (simp add: await_def update_Books_def resolve_def sel upd)
  then show ?thesis
    unfolding row by simp
qed

theorem updateBook_partial_witness:
  "requireUser (signedIn ''U1'') = Inr \<lparr>user_id = ''U1''\<rparr>
   \<and> updateBook_schema annotate
   \<and> distinct (map book_id (Books (library True)))
   \<and> Books (library True) ! 0 = mobyDick
   \<and> fst (updateBook \<lparr>randomUUID = ''B9'', newDate = 5000\<rparr> annotate (signedIn ''U1'')
          (library True)) =
       Inr (BookData (Some
         \<lparr>book_id = ''B1'', book_userId = ''U1'', book_title = ''Moby Dick'',
          book_author = Some ''Herman Melville'', book_sourceType = None, book_sourceUrl = None,
          book_language = Some ''en'', book_notes = Some ''whales'',
          book_createdAt = 1000, book_updatedAt = 5000\<rparr>))
   \<and> Books (snd (updateBook \<lparr>randomUUID = ''B9'', newDate = 5000\<rparr> annotate (signedIn ''U1'')
          (library True))) =
       [\<lparr>book_id = ''B1'', book_userId = ''U1'', book_title = ''Moby Dick'',
          book_author = Some ''Herman Melville'', book_sourceType = None, book_sourceUrl = None,
          book_language = Some ''en'', book_notes = Some ''whales'',
          book_createdAt = 1000, book_updatedAt = 5000\<rparr>, emma]"
proof -
  have h1: "requireUser (signedIn ''U1'') = Inr \<lparr>user_id = ''U1''\<rparr>"
    by (simp add: requireUser_def signedIn_def)
  have h2: "updateBook_schema annotate"
    by (simp add: updateBook_schema_def min1_def min1_optional_def annotate_def)
  have h3: "distinct (map book_id (Books (library True)))"
    by (simp add: sample_defs)
  have h4: "0 < length (Books (library True))"
    by (simp add: sample_defs)
  have h5: "Books (library True) ! 0 = mobyDick"
    by (simp add: sample_defs)
  have h6: "book_id mobyDick = ub_id annotate"
    by (simp add: sample_defs)
  have h7: "book_userId mobyDick = user_id \<lparr>user_id = ''U1''\<rparr>"
    by (simp add: sample_defs)
  from updateBook_partial [OF h1 h2 h3 h4 h5 h6 h7, of "\<lparr>randomUUID = ''B9'', newDate = 5000\<rparr>"]
  have "fst (updateBook \<lparr>randomUUID = ''B9'', newDate = 5000\<rparr> annotate (signedIn ''U1'')
          (library True)) =
       Inr (BookData (Some
         \<lparr>book_id = ''B1'', book_userId = ''U1'', book_title = ''Moby Dick'',
          book_author = Some ''Herman Melville'', book_sourceType = None, book_sourceUrl = None,
          book_language = Some ''en'', book_notes = Some ''whales'',
          book_createdAt = 1000, book_updatedAt = 5000\<rparr>))
     \<and> Books (snd (updateBook \<lparr>randomUUID = ''B9'', newDate = 5000\<rparr> annotate (signedIn ''U1'')
          (library True))) =
       [\<lparr>book_id = ''B1'', book_userId = ''U1'', book_title = ''Moby Dick'',
          book_author = Some ''Herman Melville'', book_sourceType = None, book_sourceUrl = None,
          book_language = Some ''en'', book_notes = Some ''whales'',
          book_createdAt = 1000, book_updatedAt = 5000\<rparr>, emma]"
    by (auto simp: annotate_def mobyDick_def library_def)
  with h1 h2 h3 h5 show ?thesis by simp
qed

subsection \<open>Deleting a section\<close>

lemma deleteBookSection_run:
  assumes "requireUser context = Inr user" and "deleteBookSection_schema input"
  shows "deleteBookSection input context d =
     (if user_id user \<notin> set (book_owners d (ds_bookId input))
      then (Inl (ActionError NOT_FOUND ''Book not found.''), touch (SELECT TBooks) d)
      else if \<not> has_section d (ds_bookId input) (ds_id input)
      then (Inl (ActionError NOT_FOUND ''Section not found.''),
            touch (SELECT TBookSections) (touch (SELECT TBooks) d))
      else await (delete_BookSections (\<lambda>r. section_id r = ds_id input))
             (\<lambda>_. await (delete_SectionSummaries (\<lambda>r. summary_sectionId r = ds_id input))
                     (\<lambda>_. resolve Success))
             (touch (SELECT TBookSections) (touch (SELECT TBooks) d)))"
  using assms
  by (simp add: deleteBookSection_def deleteBookSection_handler_def rejected_or_handled
      await_sync_Inr await_getOwnedSection)

text \<open>The foreign key check of the delete statement, for the section an input names.\<close>

lemma referenced_iff:
  assumes "list_ex (\<lambda>r. section_id r = sectionId) sections"
  shows "list_ex (\<lambda>r. section_id r = sectionId \<and> section_id r \<in> summary_sectionId ` set summaries)
           sections
         \<longleftrightarrow> filter (\<lambda>r. summary_sectionId r = sectionId) summaries \<noteq> []"
proof -
  from assms obtain s where s: "s \<in> set sections" "section_id s = sectionId"
    by (auto simp: list_ex_iff)
  show ?thesis
  proof
    assume "list_ex (\<lambda>r. section_id r = sectionId \<and> section_id r \<in> summary_sectionId ` set summaries)
           sections"
    then have "sectionId \<in> summary_sectionId ` set summaries"
      by (auto simp: list_ex_iff)
    then show "filter (\<lambda>r. summary_sectionId r = sectionId) summaries \<noteq> []"
      by (auto simp: filter_empty_conv)
  next
    assume "filter (\<lambda>r. summary_sectionId r = sectionId) summaries \<noteq> []"
    then have "sectionId \<in> summary_sectionId ` set summaries"
      by (force simp: filter_empty_conv)
    with s show "list_ex (\<lambda>r. section_id r = sectionId \<and> section_id r \<in> summary_sectionId ` set summaries)
           sections"
      by (auto simp: list_ex_iff)
  qed
qed

lemma deleteBookSection_owned:
  assumes "requireUser context = Inr user"
    and "deleteBookSection_schema input"
    and "user_id user \<in> set (book_owners d (ds_bookId input))"
    and "has_section d (ds_bookId input) (ds_id input)"
  shows "deleteBookSection input context d =
     (if foreign_keys d
         \<and> filter (\<lambda>r. summary_sectionId r = ds_id input) (SectionSummaries d) \<noteq> []
      then (Inl DB_FAILURE,
            touch (DELETE TBookSections) (touch (SELECT TBookSections) (touch (SELECT TBooks) d)))
      else (Inr Success,
            touch (DELETE TSectionSummaries)
              ((touch (DELETE TBookSections)
                  ((touch (SELECT TBookSections) (touch (SELECT TBooks) d))
                     \<lparr>BookSections :=
                        filter (\<lambda>r. section_id r \<noteq> ds_id input) (BookSections d)\<rparr>))
                 \<lparr>SectionSummaries :=
                    filter (\<lambda>r. summary_sectionId r \<noteq> ds_id input) (SectionSummaries d)\<rparr>)))"
proof -
  from assms(4) have "list_ex (\<lambda>r. section_id r = ds_id input) (BookSections d)"
    by (auto simp: has_section_def list_ex_iff)
  note ref = referenced_iff [OF this, of "SectionSummaries d"]
  from deleteBookSection_run [OF assms(1,2), of d] assms(3,4) show ?thesis
    by (simp add: await_def delete_BookSections_def delete_SectionSummaries_def resolve_def ref)
qed

text \<open>
  What the two statements of the handler do when both run. Take a section of a book the
  requester owns, with \<open>n\<close> summaries. A \<open>deleteBookSection\<close> call that succeeds
  leaves no section with that id and no summary with that \<open>sectionId\<close>, and removes
  nothing else. The call succeeds when \<open>n\<close> is 0, and for every \<open>n\<close> when the engine
  does not enforce the declared reference from summaries to sections.
\<close>

lemma deleteBookSection_cascade:
  assumes "requireUser context = Inr user"
    and "deleteBookSection_schema input"
    and "user_id user \<in> set (book_owners d (ds_bookId input))"
    and "has_section d (ds_bookId input) (ds_id input)"
    and "n = length (filter (\<lambda>r. summary_sectionId r = ds_id input) (SectionSummaries d))"
  shows "(deleteBookSection input context d = (Inr r, d') \<longrightarrow>
            r = Success
          \<and> ds_id input \<notin> set (map section_id (BookSections d'))
          \<and> filter (\<lambda>r. summary_sectionId r = ds_id input) (SectionSummaries d') = []
          \<and> BookSections d' = filter (\<lambda>r. section_id r \<noteq> ds_id input) (BookSections d)
          \<and> SectionSummaries d' =
              filter (\<lambda>r. summary_sectionId r \<noteq> ds_id input) (SectionSummaries d)
          \<and> Books d' = Books d)
     \<and> (n = 0 \<or> \<not> foreign_keys d \<longrightarrow>
          (\<exists>d''. deleteBookSection input context d = (Inr Success, d'')))"
proof (rule conjI; rule impI)
  assume ok: "deleteBookSection input context d = (Inr r, d')"
  with deleteBookSection_owned [OF assms(1-4)]
  have r: "r = Success"
    and d': "d' = touch (DELETE TSectionSummaries)
              ((touch (DELETE TBookSections)
                  ((touch (SELECT TBookSections) (touch (SELECT TBooks) d))
                     \<lparr>BookSections :=
                        filter (\<lambda>r. section_id r \<noteq> ds_id input) (BookSections d)\<rparr>))
                 \<lparr>SectionSummaries :=
                    filter (\<lambda>r. summary_sectionId r \<noteq> ds_id input) (SectionSummaries d)\<rparr>)"
    by (auto split: if_splits)
  from d' have s: "BookSections d' = filter (\<lambda>r. section_id r \<noteq> ds_id input) (BookSections d)"
    and m: "SectionSummaries d' =
              filter (\<lambda>r. summary_sectionId r \<noteq> ds_id input) (SectionSummaries d)"
    and b: "Books d' = Books d"
    by simp_all
  from s have gone: "ds_id input \<notin> set (map section_id (BookSections d'))" by auto
  from m have none: "filter (\<lambda>r. summary_sectionId r = ds_id input) (SectionSummaries d') = []"
    by (simp add: filter_empty_conv)
  from r gone none s m b
  show "r = Success
      \<and> ds_id input \<notin> set (map section_id (BookSections d'))
      \<and> filter (\<lambda>r. summary_sectionId r = ds_id input) (SectionSummaries d') = []
      \<and> BookSections d' = filter (\<lambda>r. section_id r \<noteq> ds_id input) (BookSections d)
      \<and> SectionSummaries d' =
          filter (\<lambda>r. summary_sectionId r \<noteq> ds_id input) (SectionSummaries d)
      \<and> Books d' = Books d"
    by simp
next
  assume "n = 0 \<or> \<not> foreign_keys d"
  with assms(5) have "\<not> (foreign_keys d
       \<and> filter (\<lambda>r. summary_sectionId r = ds_id input) (SectionSummaries d) \<noteq> [])"
    by auto
  with deleteBookSection_owned [OF assms(1-4)]
  show "\<exists>d''. deleteBookSection input context d = (Inr Success, d'')"
    by simp
qed

lemma deleteBookSection_cascade_example:
  "length (filter (\<lambda>r. summary_sectionId r = ''S4'') (SectionSummaries (library True))) = 0
   \<and> fst (deleteBookSection (remove ''S4'') (signedIn ''U1'') (library True)) = Inr Success
   \<and> ''S4'' \<notin> set (map section_id
         (BookSections (snd (deleteBookSection (remove ''S4'') (signedIn ''U1'') (library True)))))
   \<and> length (filter (\<lambda>r. summary_sectionId r = ''S2'') (SectionSummaries (library False))) = 1
   \<and> fst (deleteBookSection (remove ''S2'') (signedIn ''U1'') (library False)) = Inr Success
   \<and> filter (\<lambda>r. summary_sectionId r = ''S2'')
         (SectionSummaries (snd (deleteBookSection (remove ''S2'') (signedIn ''U1'')
            (library False)))) = []
   \<and> length (filter (\<lambda>r. summary_sectionId r = ''S1'') (SectionSummaries (library False))) = 2
   \<and> fst (deleteBookSection (remove ''S1'') (signedIn ''U1'') (library False)) = Inr Success
   \<and> filter (\<lambda>r. summary_sectionId r = ''S1'')
         (SectionSummaries (snd (deleteBookSection (remove ''S1'') (signedIn ''U1'')
            (library False)))) = []
   \<and> ''S1'' \<notin> set (map section_id
         (BookSections (snd (deleteBookSection (remove ''S1'') (signedIn ''U1'')
            (library False)))))"
proof -
  have h1: "requireUser (signedIn ''U1'') = Inr \<lparr>user_id = ''U1''\<rparr>"
    by (simp add: requireUser_def signedIn_def)
  have h2: "deleteBookSection_schema (remove sectionId)" if "sectionId \<noteq> []" for sectionId
    using that by (cases sectionId) (simp_all add: deleteBookSection_schema_def min1_def remove_def)
  have h3: "user_id \<lparr>user_id = ''U1''\<rparr> \<in> set (book_owners (library fk) (ds_bookId (remove sectionId)))"
    for fk sectionId
    by (simp add: book_owners_def sample_defs)
  have inst:
    "fst (deleteBookSection (remove sectionId) (signedIn ''U1'') (library fk)) = Inr Success
     \<and> sectionId \<notin> set (map section_id
           (BookSections (snd (deleteBookSection (remove sectionId) (signedIn ''U1'') (library fk)))))
     \<and> filter (\<lambda>r. summary_sectionId r = sectionId)
           (SectionSummaries (snd (deleteBookSection (remove sectionId) (signedIn ''U1'')
              (library fk)))) = []"
    if ne: "sectionId \<noteq> []"
      and has: "has_section (library fk) (ds_bookId (remove sectionId)) (ds_id (remove sectionId))"
      and n: "n = length (filter (\<lambda>r. summary_sectionId r = ds_id (remove sectionId))
                (SectionSummaries (library fk)))"
      and free: "n = 0 \<or> \<not> foreign_keys (library fk)"
    for sectionId fk n
  proof -
    let ?run = "deleteBookSection (remove sectionId) (signedIn ''U1'') (library fk)"
    note c = deleteBookSection_cascade [OF h1 h2 [OF ne] h3 has n, of Success "snd ?run"]
    from c free obtain d'' where ok: "?run = (Inr Success, d'')" by blast
    then have "?run = (Inr Success, snd ?run)" by simp
    with c have "ds_id (remove sectionId) \<notin> set (map section_id (BookSections (snd ?run)))"
      and "filter (\<lambda>r. summary_sectionId r = ds_id (remove sectionId))
             (SectionSummaries (snd ?run)) = []"
      by blast+
    with ok show ?thesis by (simp add: remove_def)
  qed
  have n4: "length (filter (\<lambda>r. summary_sectionId r = ''S4'') (SectionSummaries (library True))) = 0"
    by (simp add: sample_defs)
  have n2: "length (filter (\<lambda>r. summary_sectionId r = ''S2'') (SectionSummaries (library False))) = 1"
    by (simp add: sample_defs)
  have n1: "length (filter (\<lambda>r. summary_sectionId r = ''S1'') (SectionSummaries (library False))) = 2"
    by (simp add: sample_defs)
  have i4: "fst (deleteBookSection (remove ''S4'') (signedIn ''U1'') (library True)) = Inr Success
     \<and> ''S4'' \<notin> set (map section_id
           (BookSections (snd (deleteBookSection (remove ''S4'') (signedIn ''U1'') (library True)))))"
    using inst [of "''S4''" True 0] n4 by (simp add: has_section_def sample_defs)
  have i2: "fst (deleteBookSection (remove ''S2'') (signedIn ''U1'') (library False)) = Inr Success
     \<and> filter (\<lambda>r. summary_sectionId r = ''S2'')
           (SectionSummaries (snd (deleteBookSection (remove ''S2'') (signedIn ''U1'')
              (library False)))) = []"
    using inst [of "''S2''" False 1] n2 by (simp add: has_section_def sample_defs)
  have i1: "fst (deleteBookSection (remove ''S1'') (signedIn ''U1'') (library False)) = Inr Success
     \<and> filter (\<lambda>r. summary_sectionId r = ''S1'')
           (SectionSummaries (snd (deleteBookSection (remove ''S1'') (signedIn ''U1'')
              (library False)))) = []
     \<and> ''S1'' \<notin> set (map section_id
           (BookSections (snd (deleteBookSection (remove ''S1'') (signedIn ''U1'')
              (library False)))))"
    using inst [of "''S1''" False 2] n1 by (simp add: has_section_def sample_defs)
  from n4 n2 n1 i4 i2 i1 show ?thesis by blast
qed

text \<open>
  With the reference enforced, deleting a section that still has summaries fails at the
  first statement, and nothing is deleted: the handler deletes the section before its
  summaries, and the second statement is never issued.
\<close>

lemma deleteBookSection_refused:
  assumes "requireUser context = Inr user"
    and "deleteBookSection_schema input"
    and "user_id user \<in> set (book_owners d (ds_bookId input))"
    and "has_section d (ds_bookId input) (ds_id input)"
    and "foreign_keys d"
    and "filter (\<lambda>r. summary_sectionId r = ds_id input) (SectionSummaries d) \<noteq> []"
  shows "fst (deleteBookSection input context d) = Inl DB_FAILURE
     \<and> rows (snd (deleteBookSection input context d)) = rows d"
  using deleteBookSection_owned [OF assms(1-4)] assms(5,6) by simp


subsection \<open>Which actions write to the Books table\<close>

lemma Books_await:
  assumes "\<And>d. Books (snd (m d)) = Books d" and "\<And>x d. Books (snd (k x d)) = Books d"
  shows "Books (snd (await m k d)) = Books d"
proof (cases "m d")
  case (Pair r d1)
  with assms(1) [of d] have d1: "Books d1 = Books d" by simp
  show ?thesis
  proof (cases r)
    case (Inl e)
    with Pair d1 show ?thesis by (simp add: await_def)
  next
    case (Inr x)
    with Pair d1 assms(2) [of x d1] show ?thesis by (simp add: await_def)
  qed
qed

lemma Books_base [simp]:
  "Books (snd (resolve x d)) = Books d"
  "Books (snd (throw e d)) = Books d"
  "Books (snd (sync v d)) = Books d"
  "Books (snd (select_Books p d)) = Books d"
  "Books (snd (select_BookSections q d)) = Books d"
  "Books (snd (select_SectionSummaries q' d)) = Books d"
  "Books (snd (insert_BookSections s d)) = Books d"
  "Books (snd (insert_SectionSummaries s' d)) = Books d"
  "Books (snd (update_BookSections f q d)) = Books d"
  "Books (snd (delete_BookSections q d)) = Books d"
  "Books (snd (delete_SectionSummaries q' d)) = Books d"
  by (simp_all add: resolve_def throw_def sync_def statement_defs)

lemma Books_getOwnedBook [simp]: "Books (snd (getOwnedBook bookId userId d)) = Books d"
  by (simp add: getOwnedBook_eq)

lemma Books_getOwnedSection [simp]:
  "Books (snd (getOwnedSection sectionId bookId userId d)) = Books d"
  unfolding getOwnedSection_def
  by (intro Books_await) (simp_all split: option.splits)

lemma Books_defineAction:
  assumes "\<And>d. Books (snd (handler raw context d)) = Books d"
  shows "Books (snd (defineAction input handler raw context d)) = Books d"
  using assms by (simp add: rejected_or_handled)

lemma Books_unchanged:
  assumes "\<And>input. req \<noteq> CreateBook input" and "\<And>input. req \<noteq> UpdateBook input"
  shows "Books (snd (server env req context d)) = Books d"
proof (cases req)
  case ListBooks
  show ?thesis
    unfolding ListBooks server.simps listBooks_def listBooks_handler_def
    by (intro Books_defineAction Books_await) simp_all
next
  case (CreateBookSection input)
  show ?thesis
    unfolding CreateBookSection server.simps createBookSection_def createBookSection_handler_def
    by (intro Books_defineAction Books_await) simp_all
next
  case (UpdateBookSection input)
  show ?thesis
    unfolding UpdateBookSection server.simps updateBookSection_def updateBookSection_handler_def
    by (intro Books_defineAction Books_await) simp_all
next
  case (DeleteBookSection input)
  show ?thesis
    unfolding DeleteBookSection server.simps deleteBookSection_def deleteBookSection_handler_def
    by (intro Books_defineAction Books_await) simp_all
next
  case (ListBookSections input)
  show ?thesis
    unfolding ListBookSections server.simps listBookSections_def listBookSections_handler_def
    by (intro Books_defineAction Books_await) simp_all
next
  case (CreateSectionSummary input)
  show ?thesis
    unfolding CreateSectionSummary server.simps createSectionSummary_def
      createSectionSummary_handler_def
    by (intro Books_defineAction Books_await) simp_all
next
  case (ListSectionSummaries input)
  show ?thesis
    unfolding ListSectionSummaries server.simps listSectionSummaries_def
      listSectionSummaries_handler_def
    by (intro Books_defineAction Books_await) simp_all
qed (use assms in simp_all)

subsection \<open>Creating a book, and the two timestamps\<close>

lemma createBook_run:
  assumes "requireUser context = Inr user" and "createBook_schema input"
  shows "createBook env input context d =
     (if randomUUID env \<in> set (map book_id (Books d))
      then (Inl DB_FAILURE, touch (INSERT TBooks) d)
      else (Inr (BookData (Some
              \<lparr>book_id = randomUUID env, book_userId = user_id user,
               book_title = cb_title input, book_author = cb_author input,
               book_sourceType = cb_sourceType input, book_sourceUrl = cb_sourceUrl input,
               book_language = cb_language input, book_notes = cb_notes input,
               book_createdAt = newDate env, book_updatedAt = newDate env\<rparr>)),
            touch (INSERT TBooks)
              (d\<lparr>Books := Books d @
                 [\<lparr>book_id = randomUUID env, book_userId = user_id user,
                   book_title = cb_title input, book_author = cb_author input,
                   book_sourceType = cb_sourceType input, book_sourceUrl = cb_sourceUrl input,
                   book_language = cb_language input, book_notes = cb_notes input,
                   book_createdAt = newDate env, book_updatedAt = newDate env\<rparr>]\<rparr>)))"
  using assms
  by (simp add: createBook_def createBook_handler_def rejected_or_handled await_def sync_def
      insert_Books_def resolve_def Let_def)

lemma createBook_Books:
  "Books (snd (createBook env input context d)) = Books d
   \<or> (\<exists>b. Books (snd (createBook env input context d)) = Books d @ [b]
          \<and> book_createdAt b = book_updatedAt b)"
proof (cases "createBook_schema input")
  case False
  then show ?thesis by (simp add: createBook_def rejected)
next
  case True
  from requireUser_cases [of "context"] show ?thesis
  proof
    assume "requireUser context =
      Inl (ActionError UNAUTHORIZED ''You must be signed in to perform this action.'')"
    with True show ?thesis
      by (simp add: createBook_def createBook_handler_def rejected_or_handled await_sync_Inl)
  next
    assume "\<exists>user. requireUser context = Inr user"
    then obtain user where "requireUser context = Inr user" ..
    from createBook_run [OF this True, of env d] show ?thesis by simp
  qed
qed

lemma updateBook_Books:
  "Books (snd (updateBook env input context d)) = Books d
   \<or> ((\<exists>r. fst (updateBook env input context d) = Inr r)
      \<and> Books (snd (updateBook env input context d)) =
          map (\<lambda>r. if book_id r = ub_id input then updateBook_set input (newDate env) r else r)
            (Books d))"
proof (cases "updateBook_schema input")
  case False
  then show ?thesis by (simp add: updateBook_def rejected)
next
  case True
  from requireUser_cases [of "context"] show ?thesis
  proof
    assume "requireUser context =
      Inl (ActionError UNAUTHORIZED ''You must be signed in to perform this action.'')"
    with True show ?thesis
      by (simp add: updateBook_def updateBook_handler_def rejected_or_handled await_sync_Inl)
  next
    assume "\<exists>user. requireUser context = Inr user"
    then obtain user where "requireUser context = Inr user" ..
    from updateBook_run [OF this True, of env d] show ?thesis
      by (simp add: await_def update_Books_def resolve_def)
  qed
qed

text \<open>
  One call: a book of the database it leaves behind was there before, unchanged, or
  has equal timestamps, or has the id of the \<open>updateBook\<close> call that just succeeded.
\<close>

lemma step_timestamps:
  assumes "b \<in> set (Books (snd (server env req context d)))"
  shows "b \<in> set (Books d) \<or> book_createdAt b = book_updatedAt b
     \<or> book_id b \<in> set (updated_id req (fst (server env req context d)))"
proof (cases req)
  case (CreateBook input)
  with assms createBook_Books [of env input "context" d] show ?thesis by auto
next
  case (UpdateBook input)
  from updateBook_Books [of env input "context" d] show ?thesis
  proof
    assume "Books (snd (updateBook env input context d)) = Books d"
    with assms UpdateBook show ?thesis by simp
  next
    assume *: "(\<exists>r. fst (updateBook env input context d) = Inr r)
      \<and> Books (snd (updateBook env input context d)) =
          map (\<lambda>r. if book_id r = ub_id input then updateBook_set input (newDate env) r else r)
            (Books d)"
    then obtain r where r: "fst (updateBook env input context d) = Inr r" by blast
    from * assms UpdateBook obtain b0 where b0: "b0 \<in> set (Books d)"
      and b: "b = (if book_id b0 = ub_id input then updateBook_set input (newDate env) b0 else b0)"
      by auto
    show ?thesis
    proof (cases "book_id b0 = ub_id input")
      case True
      with b have "book_id b = ub_id input" by (simp add: updateBook_set_def)
      with r UpdateBook show ?thesis by simp
    next
      case False
      with b b0 show ?thesis by simp
    qed
  qed
next
  case ListBooks
  with assms Books_unchanged [of req env "context" d] show ?thesis by simp
next
  case (CreateBookSection input)
  with assms Books_unchanged [of req env "context" d] show ?thesis by simp
next
  case (UpdateBookSection input)
  with assms Books_unchanged [of req env "context" d] show ?thesis by simp
next
  case (DeleteBookSection input)
  with assms Books_unchanged [of req env "context" d] show ?thesis by simp
next
  case (ListBookSections input)
  with assms Books_unchanged [of req env "context" d] show ?thesis by simp
next
  case (CreateSectionSummary input)
  with assms Books_unchanged [of req env "context" d] show ?thesis by simp
next
  case (ListSectionSummaries input)
  with assms Books_unchanged [of req env "context" d] show ?thesis by simp
qed

lemma run_timestamps:
  assumes "b \<in> set (Books (run calls d))"
  shows "b \<in> set (Books d) \<or> book_createdAt b = book_updatedAt b
     \<or> book_id b \<in> set (succeeded_updates calls d)"
  using assms
proof (induction calls arbitrary: d)
  case Nil
  then show ?case by simp
next
  case (Cons c calls)
  obtain env req ctx where c: "c = (env, req, ctx)" by (cases c) auto
  let ?d1 = "snd (server env req ctx d)"
  from Cons.prems c have "b \<in> set (Books (run calls ?d1))" by simp
  from Cons.IH [OF this]
  have "b \<in> set (Books ?d1) \<or> book_createdAt b = book_updatedAt b
     \<or> book_id b \<in> set (succeeded_updates calls ?d1)" .
  then show ?case
  proof (elim disjE)
    assume "b \<in> set (Books ?d1)"
    from step_timestamps [OF this] c show ?thesis by auto
  next
    assume "book_createdAt b = book_updatedAt b"
    then show ?thesis by simp
  next
    assume "book_id b \<in> set (succeeded_updates calls ?d1)"
    with c show ?thesis by simp
  qed
qed

text \<open>
  Claim C10. A \<open>createBook\<close> call that succeeds returns and stores a book whose
  \<open>createdAt\<close> and \<open>updatedAt\<close> are the one \<open>Date\<close> the handler took. So in
  any sequence of calls that starts with no books, a book whose \<open>updatedAt\<close> differs
  from its \<open>createdAt\<close> is the target of an \<open>updateBook\<close> call of the sequence that
  succeeded. And \<open>createBook\<close> does succeed for an authenticated user, an accepted
  input and a fresh id.
\<close>

theorem createBook_timestamps:
  "(createBook env input context d = (Inr r, d') \<longrightarrow>
      (\<exists>b. r = BookData (Some b)
         \<and> book_createdAt b = newDate env
         \<and> book_updatedAt b = book_createdAt b
         \<and> Books d' = Books d @ [b]))
   \<and> (Books d0 = [] \<and> b' \<in> set (Books (run calls d0))
        \<and> book_updatedAt b' \<noteq> book_createdAt b'
      \<longrightarrow> book_id b' \<in> set (succeeded_updates calls d0))
   \<and> (requireUser context = Inr user \<and> createBook_schema input
        \<and> randomUUID env \<notin> set (map book_id (Books d))
      \<longrightarrow> (\<exists>b d''. createBook env input context d = (Inr (BookData (Some b)), d'')))"
proof (intro conjI)
  show "createBook env input context d = (Inr r, d') \<longrightarrow>
      (\<exists>b. r = BookData (Some b)
         \<and> book_createdAt b = newDate env
         \<and> book_updatedAt b = book_createdAt b
         \<and> Books d' = Books d @ [b])"
  proof
    assume ok: "createBook env input context d = (Inr r, d')"
    then have "server env (CreateBook input) context d = (Inr r, d')" by simp
    from succeeds_accepted [OF this] succeeds_signed_in [OF this]
    obtain u where "requireUser context = Inr u" and "createBook_schema input"
      by (auto simp: accepted_def)
    from createBook_run [OF this, of env d] ok
    show "\<exists>b. r = BookData (Some b)
         \<and> book_createdAt b = newDate env
         \<and> book_updatedAt b = book_createdAt b
         \<and> Books d' = Books d @ [b]"
      by (auto split: if_splits)
  qed
next
  show "Books d0 = [] \<and> b' \<in> set (Books (run calls d0))
        \<and> book_updatedAt b' \<noteq> book_createdAt b'
      \<longrightarrow> book_id b' \<in> set (succeeded_updates calls d0)"
    using run_timestamps [of b' calls d0] by auto
next
  show "requireUser context = Inr user \<and> createBook_schema input
        \<and> randomUUID env \<notin> set (map book_id (Books d))
      \<longrightarrow> (\<exists>b d''. createBook env input context d = (Inr (BookData (Some b)), d''))"
    using createBook_run [of "context" user input env d] by auto
qed

theorem createBook_timestamps_witness:
  "fst (createBook \<lparr>randomUUID = ''B9'', newDate = 5000\<rparr> persuasion (signedIn ''U1'')
          emptyLibrary) = Inr (BookData (Some (novel None 5000)))
   \<and> book_createdAt (novel None 5000) = 5000
   \<and> book_updatedAt (novel None 5000) = 5000
   \<and> Books emptyLibrary = []
   \<and> Books (run createThenUpdate emptyLibrary) = [novel (Some ''ta'') 6000]
   \<and> book_updatedAt (novel (Some ''ta'') 6000) \<noteq> book_createdAt (novel (Some ''ta'') 6000)
   \<and> ''B9'' \<in> set (succeeded_updates createThenUpdate emptyLibrary)"
proof -
  let ?env = "\<lparr>randomUUID = ''B9'', newDate = 5000\<rparr>"
  let ?run = "createBook ?env persuasion (signedIn ''U1'') emptyLibrary"
  have run: "?run = (Inr (BookData (Some (novel None 5000))), snd ?run)"
    by (simp add: run_defs sample_defs)
  note t = createBook_timestamps
    [of ?env persuasion "signedIn ''U1''" emptyLibrary "BookData (Some (novel None 5000))"
        "snd ?run" emptyLibrary "novel (Some ''ta'') 6000" createThenUpdate]
  from t run have a: "book_createdAt (novel None 5000) = 5000
     \<and> book_updatedAt (novel None 5000) = book_createdAt (novel None 5000)"
    by auto
  have e: "Books emptyLibrary = []"
    by (simp add: emptyLibrary_def)
  have b: "Books (run createThenUpdate emptyLibrary) = [novel (Some ''ta'') 6000]"
    by (simp add: run_defs sample_defs)
  have c: "book_updatedAt (novel (Some ''ta'') 6000) \<noteq> book_createdAt (novel (Some ''ta'') 6000)"
    by (simp add: novel_def)
  from t e b c have "book_id (novel (Some ''ta'') 6000)
      \<in> set (succeeded_updates createThenUpdate emptyLibrary)"
    by simp
  then have u: "''B9'' \<in> set (succeeded_updates createThenUpdate emptyLibrary)"
    by (simp add: novel_def)
  from run have f: "fst ?run = Inr (BookData (Some (novel None 5000)))"
    by (metis fst_conv)
  from f a e b c u show ?thesis by simp
qed

subsection \<open>The primary keys stay unique\<close>

text \<open>
  The theorems on \<open>updateBook\<close> and \<open>updateBookSection\<close> assume that the ids of a
  table are distinct. Every action keeps them so: an insert with a used id is refused,
  an update keeps the ids, a delete removes rows. So the assumption holds of every
  database reached from empty tables.
\<close>

lemma unique_ids_await:
  assumes "\<And>d. unique_ids d \<Longrightarrow> unique_ids (snd (m d))"
    and "\<And>x d. unique_ids d \<Longrightarrow> unique_ids (snd (k x d))"
    and "unique_ids d"
  shows "unique_ids (snd (await m k d))"
proof (cases "m d")
  case (Pair r d1)
  with assms(1) [OF assms(3)] have d1: "unique_ids d1" by simp
  show ?thesis
  proof (cases r)
    case (Inl e)
    with Pair d1 show ?thesis by (simp add: await_def)
  next
    case (Inr x)
    with Pair assms(2) [OF d1, of x] show ?thesis by (simp add: await_def)
  qed
qed

lemma unique_ids_touch [simp]: "unique_ids (touch a d) = unique_ids d"
  by (simp add: unique_ids_def)

lemma unique_ids_base:
  "unique_ids d \<Longrightarrow> unique_ids (snd (resolve x d))"
  "unique_ids d \<Longrightarrow> unique_ids (snd (throw e d))"
  "unique_ids d \<Longrightarrow> unique_ids (snd (sync v d))"
  "unique_ids d \<Longrightarrow> unique_ids (snd (select_Books p d))"
  "unique_ids d \<Longrightarrow> unique_ids (snd (select_BookSections q d))"
  "unique_ids d \<Longrightarrow> unique_ids (snd (select_SectionSummaries q' d))"
  by (simp_all add: resolve_def throw_def sync_def statement_defs)

lemma unique_ids_insert:
  "unique_ids d \<Longrightarrow> unique_ids (snd (insert_Books b d))"
  "unique_ids d \<Longrightarrow> unique_ids (snd (insert_BookSections s d))"
  "unique_ids d \<Longrightarrow> unique_ids (snd (insert_SectionSummaries s' d))"
  by (auto simp: statement_defs unique_ids_def)

lemma unique_ids_update:
  "unique_ids d \<Longrightarrow> unique_ids (snd (update_Books (updateBook_set ub now) p d))"
  "unique_ids d \<Longrightarrow> unique_ids (snd (update_BookSections (updateBookSection_set us) q d))"
proof -
  have b: "map (book_id \<circ> (\<lambda>r. if p r then updateBook_set ub now r else r)) xs = map book_id xs"
    for xs
    by (induction xs) (simp_all add: updateBook_set_def)
  have s: "map (section_id \<circ> (\<lambda>r. if q r then updateBookSection_set us r else r)) ys
      = map section_id ys" for ys
    by (induction ys) (simp_all add: updateBookSection_set_def)
  show "unique_ids d \<Longrightarrow> unique_ids (snd (update_Books (updateBook_set ub now) p d))"
    by (simp add: update_Books_def unique_ids_def b)
  show "unique_ids d \<Longrightarrow> unique_ids (snd (update_BookSections (updateBookSection_set us) q d))"
    by (simp add: update_BookSections_def unique_ids_def s)
qed

lemma unique_ids_delete:
  "unique_ids d \<Longrightarrow> unique_ids (snd (delete_BookSections q d))"
  "unique_ids d \<Longrightarrow> unique_ids (snd (delete_SectionSummaries q' d))"
  by (simp_all add: statement_defs unique_ids_def distinct_map_filter)

lemma unique_ids_getOwnedBook:
  "unique_ids d \<Longrightarrow> unique_ids (snd (getOwnedBook bookId userId d))"
  by (simp add: getOwnedBook_eq)

lemma unique_ids_getOwnedSection:
  "unique_ids d \<Longrightarrow> unique_ids (snd (getOwnedSection sectionId bookId userId d))"
  unfolding getOwnedSection_def
  by (intro unique_ids_await unique_ids_getOwnedBook)
    (simp_all add: unique_ids_base split: option.splits)

lemma unique_ids_defineAction:
  assumes "\<And>d. unique_ids d \<Longrightarrow> unique_ids (snd (handler raw context d))"
    and "unique_ids d"
  shows "unique_ids (snd (defineAction input handler raw context d))"
  using assms by (simp add: rejected_or_handled)

lemmas unique_ids_intros =
  unique_ids_defineAction unique_ids_await unique_ids_base unique_ids_insert unique_ids_update
  unique_ids_delete unique_ids_getOwnedBook unique_ids_getOwnedSection

lemma unique_ids_server:
  assumes "unique_ids d"
  shows "unique_ids (snd (server env req context d))"
proof (cases req)
  case (CreateBook input)
  from assms show ?thesis
    unfolding CreateBook server.simps createBook_def createBook_handler_def Let_def
    by (intro unique_ids_intros)
next
  case (UpdateBook input)
  from assms show ?thesis
    unfolding UpdateBook server.simps updateBook_def updateBook_handler_def
    by (intro unique_ids_intros)
next
  case ListBooks
  from assms show ?thesis
    unfolding ListBooks server.simps listBooks_def listBooks_handler_def
    by (intro unique_ids_intros)
next
  case (CreateBookSection input)
  from assms show ?thesis
    unfolding CreateBookSection server.simps createBookSection_def createBookSection_handler_def
    by (intro unique_ids_intros)
next
  case (UpdateBookSection input)
  from assms show ?thesis
    unfolding UpdateBookSection server.simps updateBookSection_def updateBookSection_handler_def
    by (intro unique_ids_intros)
next
  case (DeleteBookSection input)
  from assms show ?thesis
    unfolding DeleteBookSection server.simps deleteBookSection_def deleteBookSection_handler_def
    by (intro unique_ids_intros)
next
  case (ListBookSections input)
  from assms show ?thesis
    unfolding ListBookSections server.simps listBookSections_def listBookSections_handler_def
    by (intro unique_ids_intros)
next
  case (CreateSectionSummary input)
  from assms show ?thesis
    unfolding CreateSectionSummary server.simps createSectionSummary_def
      createSectionSummary_handler_def
    by (intro unique_ids_intros)
next
  case (ListSectionSummaries input)
  from assms show ?thesis
    unfolding ListSectionSummaries server.simps listSectionSummaries_def
      listSectionSummaries_handler_def
    by (intro unique_ids_intros)
qed

lemma unique_ids_run:
  assumes "Books d = []" and "BookSections d = []" and "SectionSummaries d = []"
  shows "unique_ids (run calls d)"
proof -
  have "unique_ids d' \<Longrightarrow> unique_ids (run calls d')" for d'
  proof (induction calls arbitrary: d')
    case Nil
    then show ?case by simp
  next
    case (Cons c calls)
    obtain env req ctx where "c = (env, req, ctx)" by (cases c) auto
    with Cons.prems unique_ids_server [of d' env req ctx] Cons.IH show ?case by simp
  qed
  moreover from assms have "unique_ids d" by (simp add: unique_ids_def)
  ultimately show ?thesis .
qed

end
